theory Spec2Isabelle
  imports Complex_Main
begin

section \<open>Weyra: the orchestration core of \<^verbatim>\<open>src/utils/WeryaAI.ts\<close>\<close>

text \<open>
  The class \<^verbatim>\<open>WeyraAI\<close> is embedded method by method. Its mutable parts (the two
  tables it owns in the relational store, the in-memory cooldown map) and everything it
  does to the outside world (model calls, platform sends, timers, HTTP requests, store
  queries) are fields of an explicit state; the collaborators it talks to (language
  model, chat platform, store engine, clock, runtime library) are functions of an
  environment record, each of which may look at the whole state, so that their answers
  may differ from call to call. A \<^verbatim>\<open>throw\<close> is a value \<open>Inl e\<close>.
\<close>

subsection \<open>JavaScript values\<close>

text \<open>
  Tool arguments are whatever \<^verbatim>\<open>JSON.parse\<close> returns and the handlers take them as
  \<^verbatim>\<open>any\<close>. \<open>JUndef\<close> is JavaScript's \<^verbatim>\<open>undefined\<close>: it is what reading an absent
  property gives. Numbers are the integers (all quantities of the program are
  milliseconds, counts and identifiers).
\<close>

datatype json =
    JUndef
  | JNull
  | JBool bool
  | JNum int
  | JStr string
  | JArr "json list"
  | JObj "(string \<times> json) list"

text \<open>
  Property read \<^verbatim>\<open>v.k\<close> on a value that is neither null nor undefined, for the
  names the program reads from payloads and platform objects (none of which a string, a
  number, a boolean or an array has; \<^verbatim>\<open>length\<close> and the index \<^verbatim>\<open>0\<close> are read
  through \<open>js_length\<close> and \<open>js_first\<close> below).
\<close>

fun js_prop :: "json \<Rightarrow> string \<Rightarrow> json" where
  "js_prop (JObj fs) k = (case map_of fs k of None \<Rightarrow> JUndef | Some v \<Rightarrow> v)"
| "js_prop _ k = JUndef"

text \<open>Truthiness, as used by \<^verbatim>\<open>!x\<close>, \<^verbatim>\<open>x || y\<close> and \<^verbatim>\<open>x && y\<close>.\<close>

fun truthy :: "json \<Rightarrow> bool" where
  "truthy JUndef = False"
| "truthy JNull = False"
| "truthy (JBool b) = b"
| "truthy (JNum n) = (n \<noteq> 0)"
| "truthy (JStr s) = (s \<noteq> [])"
| "truthy (JArr _) = True"
| "truthy (JObj _) = True"

text \<open>A destructuring default \<^verbatim>\<open>{ k = d }\<close> applies to \<^verbatim>\<open>undefined\<close> only.\<close>

definition js_default :: "json \<Rightarrow> json \<Rightarrow> json" where
  "js_default d v = (if v = JUndef then d else v)"

definition digit_char :: "nat \<Rightarrow> char" where
  "digit_char d = ''0123456789'' ! d"

fun show_nat :: "nat \<Rightarrow> string" where
  "show_nat n =
     (if n < 10 then [digit_char n]
      else show_nat (n div 10) @ [digit_char (n mod 10)])"

definition show_int :: "int \<Rightarrow> string" where
  "show_int i = (if i < 0 then CHR ''-'' # show_nat (nat (- i)) else show_nat (nat i))"

fun join_with :: "string \<Rightarrow> string list \<Rightarrow> string" where
  "join_with sep [] = []"
| "join_with sep [x] = x"
| "join_with sep (x # y # ys) = x @ sep @ join_with sep (y # ys)"

text \<open>String conversion, as done by a template literal \<^verbatim>\<open>`${v}`\<close>.\<close>

fun js_to_string :: "json \<Rightarrow> string" where
  "js_to_string JUndef = ''undefined''"
| "js_to_string JNull = ''null''"
| "js_to_string (JBool b) = (if b then ''true'' else ''false'')"
| "js_to_string (JNum n) = show_int n"
| "js_to_string (JStr s) = s"
| "js_to_string (JArr xs) =
     join_with '',''
       (map (\<lambda>x. if x = JUndef \<or> x = JNull then [] else js_to_string x) xs)"
| "js_to_string (JObj fs) = ''[object Object]''"

subsection \<open>Errors\<close>

text \<open>
  The code throws plain \<^verbatim>\<open>Error\<close> objects that differ by their message; each message
  of the source is one constructor, named by the kind the specification gives it.
  \<open>TypeError\<close> and \<open>SyntaxError\<close> are the runtime's own; \<open>UpstreamFailure\<close> is a
  rejection by a collaborator, with its text.
\<close>

datatype error =
    ValidationError
  | UnknownTool string
  | ConfirmationRequired
  | RateLimited int
  | NotInServer
  | NoResponse
  | UpstreamFailure string
  | TypeError string
  | SyntaxError string

fun error_message :: "error \<Rightarrow> string" where
  "error_message ValidationError = ''Messages must be a string or array of message objects''"
| "error_message (UnknownTool name) = ''Unknown tool: '' @ name"
| "error_message ConfirmationRequired = ''History clearing requires confirmation''"
| "error_message (RateLimited secs) =
     ''Please wait '' @ show_int secs @ '' seconds before sending multiple messages again.''"
| "error_message NotInServer = ''This command can only be used in a server''"
| "error_message NoResponse = ''No response from OpenAI''"
| "error_message (UpstreamFailure m) = m"
| "error_message (TypeError m) = m"
| "error_message (SyntaxError m) = m"

text \<open>
  \<^verbatim>\<open>`${error}`\<close>: the error's name, a colon and its message (a collaborator's
  rejection is rendered as a plain \<^verbatim>\<open>Error\<close> with its text).
\<close>

fun error_to_string :: "error \<Rightarrow> string" where
  "error_to_string (TypeError m) = ''TypeError: '' @ m"
| "error_to_string (SyntaxError m) = ''SyntaxError: '' @ m"
| "error_to_string e = ''Error: '' @ error_message e"

subsection \<open>Data model\<close>

datatype role = User | Assistant | System

record CooldownEntry =
  userId :: string
  lastUsed :: int

record MessageHistory =
  row_id :: nat
  user_id :: string
  channel_id :: string
  role :: role
  content :: string
  created_at :: int

record Memory =
  memory_id :: nat
  memory_user_id :: string
  memory_keywords :: string
  memory_content :: string
  memory_created_at :: int

record chat_message =
  msg_role :: role
  msg_content :: string

record ToolExecutionContext =
  ctx_user_id :: string
  ctx_channel_id :: string
  ctx_user :: json
  ctx_guild :: json

record ToolCall =
  tc_id :: string
  tc_name :: string
  tc_arguments :: string

text \<open>The statements sent to the store, one constructor per query text of the source.\<close>

datatype query =
    InsertHistory
  | SelectHistory
  | PruneHistory
  | DeleteHistory
  | SelectMemories
  | InsertMemory

text \<open>Everything the program does to a collaborator, in the order it does it.\<close>

datatype event =
    ModelCall "chat_message list" bool
  | Reply json
  | ReplyFailed json
  | Sleep int
  | HttpGet string
  | UsersFetch json
  | Query query "json list"

record state =
  message_history :: "MessageHistory list"
  history_seq :: nat
  memories :: "Memory list"
  memories_seq :: nat
  cooldowns :: "string \<rightharpoonup> CooldownEntry"
  trace :: "event list"

definition emit :: "event \<Rightarrow> state \<Rightarrow> state" where
  "emit e s = s\<lparr>trace := trace s @ [e]\<rparr>"

subsection \<open>Collaborators\<close>

record response_message =
  rm_content :: "string option"
  tool_calls :: "ToolCall list option"

text \<open>
  A completion is the list \<^verbatim>\<open>response.choices\<close>, each choice given by its
  \<^verbatim>\<open>message\<close> (\<open>None\<close> when the choice has none).
\<close>

type_synonym completion = "response_message option list"

record http_response =
  ok :: bool
  status :: int
  body :: "error + json"

text \<open>
  None of the following is code of the repository. \<open>db_rejects\<close> says whether
  \<^verbatim>\<open>Database.query\<close> throws (and with what text) for reasons of the store's own;
  \<open>message_reply\<close> whether \<^verbatim>\<open>context.message.reply\<close> rejects;
  \<open>chat_completions_create\<close> is the model, asked with or without the tool catalog;
  \<open>to_number\<close> converts the values whose numeric reading needs a parser (strings,
  arrays, objects; \<open>None\<close> is \<^verbatim>\<open>NaN\<close>); \<open>pg_serialize\<close> is the store driver's text
  for arrays and objects; \<open>ts_search\<close> is the store's full-text match of a query string
  against rows, best match first. \<open>Date_now s k\<close> is what \<^verbatim>\<open>Date.now()\<close> returns the
  \<open>k\<close>-th time (from 0) it is read while the program is in state \<open>s\<close>: two readings
  made in the same state need not agree.
\<close>

record env =
  Date_now :: "state \<Rightarrow> nat \<Rightarrow> int"
  JSON_parse :: "string \<Rightarrow> error + json"
  JSON_stringify :: "json \<Rightarrow> string"
  to_number :: "json \<Rightarrow> int option"
  encodeURIComponent :: "string \<Rightarrow> string"
  db_rejects :: "state \<Rightarrow> query \<Rightarrow> json list \<Rightarrow> string option"
  db_timestamp :: "state \<Rightarrow> int"
  pg_serialize :: "json \<Rightarrow> string"
  ts_search :: "string \<Rightarrow> Memory list \<Rightarrow> Memory list"
  chat_completions_create :: "state \<Rightarrow> chat_message list \<Rightarrow> bool \<Rightarrow> error + completion"
  message_reply :: "state \<Rightarrow> json \<Rightarrow> string option"
  users_fetch :: "state \<Rightarrow> json \<Rightarrow> error + json"
  fetch :: "state \<Rightarrow> string \<Rightarrow> error + http_response"
  format_time :: "json \<Rightarrow> int \<Rightarrow> error + string"
  toISOString :: "int \<Rightarrow> string"
  snowflake_iso :: "json \<Rightarrow> error + string"

text \<open>Numeric reading of a value, as a comparison \<^verbatim>\<open>v > 0\<close> and a timer make it.\<close>

fun js_number :: "env \<Rightarrow> json \<Rightarrow> int option" where
  "js_number E JUndef = None"
| "js_number E JNull = Some 0"
| "js_number E (JBool b) = Some (if b then 1 else 0)"
| "js_number E (JNum n) = Some n"
| "js_number E v = to_number E v"

definition js_positive :: "env \<Rightarrow> json \<Rightarrow> bool" where
  "js_positive E v = (case js_number E v of None \<Rightarrow> False | Some n \<Rightarrow> 0 < n)"

text \<open>\<^verbatim>\<open>await new Promise(resolve => setTimeout(resolve, v))\<close>, reached only when \<^verbatim>\<open>v > 0\<close>.\<close>

definition sleep :: "env \<Rightarrow> json \<Rightarrow> state \<Rightarrow> state" where
  "sleep E v s = emit (Sleep (case js_number E v of None \<Rightarrow> 0 | Some n \<Rightarrow> n)) s"

text \<open>
  The text the store driver sends for a query parameter; \<open>None\<close> is SQL \<^verbatim>\<open>NULL\<close>,
  which every column of the two tables refuses (\<^verbatim>\<open>NOT NULL\<close>).
\<close>

fun pg_text :: "env \<Rightarrow> json \<Rightarrow> string option" where
  "pg_text E JUndef = None"
| "pg_text E JNull = None"
| "pg_text E (JBool b) = Some (if b then ''true'' else ''false'')"
| "pg_text E (JNum n) = Some (show_int n)"
| "pg_text E (JStr s) = Some s"
| "pg_text E v = Some (pg_serialize E v)"

subsection \<open>History Store\<close>

fun role_name :: "role \<Rightarrow> string" where
  "role_name User = ''user''"
| "role_name Assistant = ''assistant''"
| "role_name System = ''system''"

definition in_pair :: "string \<Rightarrow> string \<Rightarrow> MessageHistory \<Rightarrow> bool" where
  "in_pair u c r \<longleftrightarrow> user_id r = u \<and> channel_id r = c"

text \<open>
  \<^verbatim>\<open>ORDER BY created_at DESC\<close>. SQL leaves the order of rows with equal
  \<open>created_at\<close> open; here the row inserted later comes first.
\<close>

definition order_by_created_at_desc :: "MessageHistory list \<Rightarrow> MessageHistory list" where
  "order_by_created_at_desc rows = rev (sort_key created_at rows)"

text \<open>
  \<^verbatim>\<open>saveMessageToHistory\<close>: one \<^verbatim>\<open>INSERT\<close>; a failure is logged and swallowed. The
  content \<open>v\<close> is declared a string but \<^verbatim>\<open>replyToUser\<close> passes what the payload held.
\<close>

definition saveMessageToHistory ::
  "env \<Rightarrow> string \<Rightarrow> string \<Rightarrow> role \<Rightarrow> json \<Rightarrow> state \<Rightarrow> state" where
  "saveMessageToHistory E u c r v s =
     (let params = [JStr u, JStr c, JStr (role_name r), v];
          s1 = emit (Query InsertHistory params) s
      in case db_rejects E s InsertHistory params of
           Some _ \<Rightarrow> s1
         | None \<Rightarrow>
             (case pg_text E v of
                None \<Rightarrow> s1
              | Some t \<Rightarrow>
                  s1\<lparr>message_history := message_history s1 @
                        [\<lparr>row_id = Suc (history_seq s1), user_id = u, channel_id = c,
                          role = r, content = t, created_at = db_timestamp E s\<rparr>],
                     history_seq := Suc (history_seq s1)\<rparr>))"

text \<open>
  \<^verbatim>\<open>getMessageHistory\<close>: the \<^verbatim>\<open>SELECT ... ORDER BY created_at DESC LIMIT $3\<close>, then
  \<^verbatim>\<open>rows.reverse()\<close>; on a failure (a negative \<^verbatim>\<open>LIMIT\<close> is one) the empty list.
\<close>

definition getMessageHistory ::
  "env \<Rightarrow> string \<Rightarrow> string \<Rightarrow> int \<Rightarrow> state \<Rightarrow> MessageHistory list \<times> state" where
  "getMessageHistory E u c limit s =
     (let params = [JStr u, JStr c, JNum limit];
          s1 = emit (Query SelectHistory params) s
      in if db_rejects E s SelectHistory params \<noteq> None \<or> limit < 0 then ([], s1)
         else (rev (take (nat limit)
                 (order_by_created_at_desc (filter (in_pair u c) (message_history s)))), s1))"

text \<open>
  \<^verbatim>\<open>cleanOldHistory\<close>: the \<^verbatim>\<open>DELETE ... AND id NOT IN (SELECT id ... LIMIT $3)\<close>; a
  failure is logged and swallowed.
\<close>

definition cleanOldHistory :: "env \<Rightarrow> string \<Rightarrow> string \<Rightarrow> int \<Rightarrow> state \<Rightarrow> state" where
  "cleanOldHistory E u c keepLast s =
     (let params = [JStr u, JStr c, JNum keepLast];
          s1 = emit (Query PruneHistory params) s
      in if db_rejects E s PruneHistory params \<noteq> None \<or> keepLast < 0 then s1
         else
           (let kept = map row_id (take (nat keepLast)
                  (order_by_created_at_desc (filter (in_pair u c) (message_history s))))
            in s1\<lparr>message_history :=
                    filter (\<lambda>r. \<not> (in_pair u c r \<and> row_id r \<notin> set kept))
                      (message_history s1)\<rparr>))"

subsection \<open>Tool handlers\<close>

text \<open>
  Every handler but \<^verbatim>\<open>getServerInfo\<close> starts by destructuring its argument, which
  throws on \<^verbatim>\<open>null\<close> (and \<^verbatim>\<open>undefined\<close>) and reads \<^verbatim>\<open>undefined\<close> for a property
  the payload does not have.
\<close>

definition nullish :: "json \<Rightarrow> bool" where
  "nullish v \<longleftrightarrow> v = JUndef \<or> v = JNull"

definition destructure_error :: error where
  "destructure_error = TypeError ''Cannot destructure property of 'args' as it is null.''"

definition read_error :: "string \<Rightarrow> error" where
  "read_error k = TypeError (''Cannot read properties of null (reading '' @ k @ '')'')"

text \<open>\<^verbatim>\<open>Math.ceil(x / d)\<close> on integers.\<close>

definition ceil_div :: "int \<Rightarrow> int \<Rightarrow> int" where
  "ceil_div x d = - ((- x) div d)"

record normalized_message =
  nm_content :: json
  nm_cooldown :: json

text \<open>The callback of \<^verbatim>\<open>messages.map\<close> in \<^verbatim>\<open>replyToUser\<close>.\<close>

definition normalize_entry :: "nat \<Rightarrow> json \<Rightarrow> error + normalized_message" where
  "normalize_entry index msg =
     (case msg of
        JStr t \<Rightarrow> Inr \<lparr>nm_content = JStr t, nm_cooldown = JNum (if index > 0 then 1000 else 0)\<rparr>
      | JUndef \<Rightarrow> Inl (read_error ''content'')
      | JNull \<Rightarrow> Inl (read_error ''content'')
      | _ \<Rightarrow>
          Inr \<lparr>nm_content = js_prop msg ''content'',
               nm_cooldown =
                 (if truthy (js_prop msg ''cooldown'') then js_prop msg ''cooldown''
                  else JNum (if index > 0 then 1000 else 0))\<rparr>)"

fun normalize_from :: "nat \<Rightarrow> json list \<Rightarrow> error + normalized_message list" where
  "normalize_from index [] = Inr []"
| "normalize_from index (msg # msgs) =
     (case normalize_entry index msg of
        Inl e \<Rightarrow> Inl e
      | Inr m \<Rightarrow>
          (case normalize_from (Suc index) msgs of
             Inl e \<Rightarrow> Inl e
           | Inr ms \<Rightarrow> Inr (m # ms)))"

text \<open>The normalisation at the head of \<^verbatim>\<open>replyToUser\<close>.\<close>

definition normalize_messages :: "json \<Rightarrow> error + normalized_message list" where
  "normalize_messages messages =
     (case messages of
        JStr t \<Rightarrow> Inr [\<lparr>nm_content = JStr t, nm_cooldown = JNum 0\<rparr>]
      | JArr msgs \<Rightarrow> normalize_from 0 msgs
      | _ \<Rightarrow> Inl ValidationError)"

definition cooldownKey :: "string \<Rightarrow> string" where
  "cooldownKey u = ''reply_'' @ u"

definition globalCooldown :: int where
  "globalCooldown = 2000"

text \<open>
  The block \<^verbatim>\<open>if (normalizedMessages.length > 1) { ... }\<close> of \<^verbatim>\<open>replyToUser\<close>. Every
  \<^verbatim>\<open>Date.now()\<close> in it is a reading of its own: the test reads the clock (only when
  the key has an entry, by the short circuit of \<^verbatim>\<open>&&\<close>), the message of the error
  reads it again, and so does the record; the readings are numbered in the order the
  block makes them.
\<close>

definition cooldown_gate :: "env \<Rightarrow> string \<Rightarrow> nat \<Rightarrow> state \<Rightarrow> error + state" where
  "cooldown_gate E u n s =
     (if n > 1 then
        (case cooldowns s (cooldownKey u) of
           None \<Rightarrow>
             Inr (s\<lparr>cooldowns := (cooldowns s)
                       (cooldownKey u \<mapsto> \<lparr>userId = u, lastUsed = Date_now E s 0\<rparr>)\<rparr>)
         | Some entry \<Rightarrow>
             if Date_now E s 0 - lastUsed entry < globalCooldown
             then Inl (RateLimited
                        (ceil_div (globalCooldown - (Date_now E s 1 - lastUsed entry)) 1000))
             else Inr (s\<lparr>cooldowns := (cooldowns s)
                            (cooldownKey u \<mapsto> \<lparr>userId = u, lastUsed = Date_now E s 1\<rparr>)\<rparr>))
      else Inr s)"

definition sent_status :: "nat \<Rightarrow> json \<Rightarrow> string" where
  "sent_status i cooldown =
     ''Message '' @ show_nat (i + 1) @ '' sent successfully (cooldown: ''
       @ js_to_string cooldown @ ''ms)''"

text \<open>The \<^verbatim>\<open>for\<close> loop of \<^verbatim>\<open>replyToUser\<close>, from index \<open>i\<close> on.\<close>

fun send_messages ::
  "env \<Rightarrow> ToolExecutionContext \<Rightarrow> nat \<Rightarrow> normalized_message list \<Rightarrow> string list \<Rightarrow> state
     \<Rightarrow> (error + string list) \<times> state" where
  "send_messages E ctx i [] results s = (Inr results, s)"
| "send_messages E ctx i (m # ms) results s =
     (let s1 = (if i > 0 \<and> js_positive E (nm_cooldown m) then sleep E (nm_cooldown m) s else s)
      in case message_reply E s1 (nm_content m) of
           Some why \<Rightarrow> (Inl (UpstreamFailure why), emit (ReplyFailed (nm_content m)) s1)
         | None \<Rightarrow>
             (let s2 = emit (Reply (nm_content m)) s1;
                  s3 = saveMessageToHistory E (ctx_user_id ctx) (ctx_channel_id ctx)
                         Assistant (nm_content m) s2
              in send_messages E ctx (Suc i) ms
                   (results @ [sent_status i (nm_cooldown m)]) s3))"

text \<open>The \<^verbatim>\<open>try\<close> block of \<^verbatim>\<open>replyToUser\<close>: the leading timeout, the loop, the result.\<close>

definition deliver ::
  "env \<Rightarrow> ToolExecutionContext \<Rightarrow> json \<Rightarrow> normalized_message list \<Rightarrow> state
     \<Rightarrow> (error + json) \<times> state" where
  "deliver E ctx timeout normalizedMessages s =
     (let s1 = (if js_positive E timeout then sleep E timeout s else s)
      in case send_messages E ctx 0 normalizedMessages [] s1 of
           (Inl e, s2) \<Rightarrow> (Inl e, s2)
         | (Inr results, s2) \<Rightarrow>
             (Inr (JObj [(''success'', JBool True),
                         (''messages_sent'', JNum (int (length normalizedMessages))),
                         (''results'', JArr (map JStr results))]), s2))"

definition replyToUser ::
  "env \<Rightarrow> json \<Rightarrow> ToolExecutionContext \<Rightarrow> state \<Rightarrow> (error + json) \<times> state" where
  "replyToUser E args ctx s =
     (if nullish args then (Inl destructure_error, s)
      else
        (let messages = js_prop args ''messages'';
             timeout = js_default (JNum 0) (js_prop args ''timeout'')
         in case normalize_messages messages of
              Inl e \<Rightarrow> (Inl e, s)
            | Inr normalizedMessages \<Rightarrow>
                (case cooldown_gate E (ctx_user_id ctx) (length normalizedMessages) s of
                   Inl e \<Rightarrow> (Inl e, s)
                 | Inr s1 \<Rightarrow> deliver E ctx timeout normalizedMessages s1)))"

definition memory_json :: "env \<Rightarrow> Memory \<Rightarrow> json" where
  "memory_json E m =
     JObj [(''id'', JNum (int (memory_id m))), (''user_id'', JStr (memory_user_id m)),
           (''keywords'', JStr (memory_keywords m)), (''content'', JStr (memory_content m)),
           (''created_at'', JStr (toISOString E (memory_created_at m)))]"

definition getMemory ::
  "env \<Rightarrow> json \<Rightarrow> ToolExecutionContext \<Rightarrow> state \<Rightarrow> (error + json) \<times> state" where
  "getMemory E args ctx s =
     (if nullish args then (Inl destructure_error, s)
      else
        (let kw = js_prop args ''keywords'';
             uid = js_default (JStr (ctx_user_id ctx)) (js_prop args ''user_id'');
             params = [uid, kw];
             s1 = emit (Query SelectMemories params) s
         in case db_rejects E s SelectMemories params of
              Some why \<Rightarrow> (Inl (UpstreamFailure why), s1)
            | None \<Rightarrow>
                (let rows =
                       (case (pg_text E uid, pg_text E kw) of
                          (Some u, Some q) \<Rightarrow>
                            take 5 (ts_search E q
                              (filter (\<lambda>m. memory_user_id m = u) (memories s)))
                        | _ \<Rightarrow> [])
                 in (Inr (JObj [(''found'', JBool (rows \<noteq> [])),
                                (''memories'', JArr (map (memory_json E) rows)),
                                (''search_keywords'', kw)]), s1))))"

text \<open>\<^verbatim>\<open>content.length\<close> on a value that is neither null nor undefined.\<close>

fun js_length :: "json \<Rightarrow> json" where
  "js_length (JStr t) = JNum (int (length t))"
| "js_length (JArr xs) = JNum (int (length xs))"
| "js_length v = js_prop v ''length''"

definition saveMemory ::
  "env \<Rightarrow> json \<Rightarrow> ToolExecutionContext \<Rightarrow> state \<Rightarrow> (error + json) \<times> state" where
  "saveMemory E args ctx s =
     (if nullish args then (Inl destructure_error, s)
      else
        (let kw = js_prop args ''keywords'';
             body = js_prop args ''content'';
             uid = js_default (JStr (ctx_user_id ctx)) (js_prop args ''user_id'');
             params = [uid, kw, body];
             s1 = emit (Query InsertMemory params) s
         in case db_rejects E s InsertMemory params of
              Some why \<Rightarrow> (Inl (UpstreamFailure why), s1)
            | None \<Rightarrow>
                (case (pg_text E uid, pg_text E kw, pg_text E body) of
                   (Some u, Some k, Some t) \<Rightarrow>
                     (Inr (JObj [(''success'', JBool True),
                                 (''memory_id'', JNum (int (Suc (memories_seq s)))),
                                 (''keywords'', kw),
                                 (''content_length'', js_length body)]),
                      s1\<lparr>memories := memories s1 @
                            [\<lparr>memory_id = Suc (memories_seq s), memory_user_id = u,
                              memory_keywords = k, memory_content = t,
                              memory_created_at = db_timestamp E s\<rparr>],
                         memories_seq := Suc (memories_seq s)\<rparr>)
                 | _ \<Rightarrow>
                     (Inl (UpstreamFailure ''null value violates not-null constraint''), s1))))"

definition getUserInfo ::
  "env \<Rightarrow> json \<Rightarrow> ToolExecutionContext \<Rightarrow> state \<Rightarrow> (error + json) \<times> state" where
  "getUserInfo E args ctx s =
     (if nullish args then (Inl destructure_error, s)
      else
        (let uid = js_default (JStr (ctx_user_id ctx)) (js_prop args ''user_id'');
             (found, s1) =
               (if uid = JStr (ctx_user_id ctx) then (Inr (ctx_user ctx), s)
                else (users_fetch E s uid, emit (UsersFetch uid) s))
         in case found of
              Inl e \<Rightarrow> (Inl e, s1)
            | Inr user \<Rightarrow>
                if nullish user then (Inl (read_error ''id''), s1)
                else
                  (case snowflake_iso E (js_prop user ''id'') of
                     Inl e \<Rightarrow> (Inl e, s1)
                   | Inr created \<Rightarrow>
                       (Inr (JObj [(''id'', js_prop user ''id''),
                                   (''username'', js_prop user ''username''),
                                   (''discriminator'', js_prop user ''discriminator''),
                                   (''avatar'', js_prop user ''avatar''),
                                   (''bot'', js_prop user ''bot''),
                                   (''created_at'', JStr created)]), s1))))"

definition getTime :: "env \<Rightarrow> json \<Rightarrow> state \<Rightarrow> (error + json) \<times> state" where
  "getTime E args s =
     (if nullish args then (Inl destructure_error, s)
      else
        (let timezone = js_prop args ''timezone'';
             now = Date_now E s 0
         in case format_time E timezone now of
              Inl e \<Rightarrow> (Inl e, s)
            | Inr timeInTimezone \<Rightarrow>
                (Inr (JObj [(''timezone'', timezone),
                            (''current_time'', JStr timeInTimezone),
                            (''utc_time'', JStr (toISOString E now)),
                            (''timestamp'', JNum now)]), s)))"

text \<open>\<^verbatim>\<open>v.k[0]\<close>: the read of \<open>k\<close> throws on a nullish \<open>v\<close>, the index on a nullish \<open>v.k\<close>.\<close>

fun js_first :: "json \<Rightarrow> json" where
  "js_first (JArr (x # _)) = x"
| "js_first (JStr (c # _)) = JStr [c]"
| "js_first v = js_prop v ''0''"

definition prop_first :: "json \<Rightarrow> string \<Rightarrow> error + json" where
  "prop_first v k =
     (if nullish v then Inl (read_error k)
      else if nullish (js_prop v k) then Inl (read_error ''0'')
      else Inr (js_first (js_prop v k)))"

definition getWeather :: "env \<Rightarrow> json \<Rightarrow> state \<Rightarrow> (error + json) \<times> state" where
  "getWeather E args s =
     (if nullish args then (Inl destructure_error, s)
      else
        (let city = js_prop args ''city'';
             url = ''https://wttr.in/'' @ encodeURIComponent E (js_to_string city)
                     @ ''?format=j1'';
             s1 = emit (HttpGet url) s
         in case fetch E s url of
              Inl e \<Rightarrow> (Inl e, s1)
            | Inr response \<Rightarrow>
                if \<not> ok response
                then (Inl (UpstreamFailure (''wttr.in error: '' @ show_int (status response))), s1)
                else
                  (case body response of
                     Inl e \<Rightarrow> (Inl e, s1)
                   | Inr data \<Rightarrow>
                       (case prop_first data ''current_condition'' of
                          Inl e \<Rightarrow> (Inl e, s1)
                        | Inr cc \<Rightarrow>
                            (case prop_first data ''weather'' of
                               Inl e \<Rightarrow> (Inl e, s1)
                             | Inr w \<Rightarrow>
                                 (case prop_first data ''nearest_area'' of
                                    Inl e \<Rightarrow> (Inl e, s1)
                                  | Inr na \<Rightarrow>
                                      (Inr (JObj [(''city'', city),
                                                  (''current_condition'', cc),
                                                  (''weather'', w),
                                                  (''nearest_area'', na)]), s1)))))))"

text \<open>
  \<^verbatim>\<open>getServerInfo\<close> takes no argument; \<open>ctx_guild\<close> is what
  \<^verbatim>\<open>context.message.guild()\<close> hands back.
\<close>

definition getServerInfo ::
  "env \<Rightarrow> ToolExecutionContext \<Rightarrow> state \<Rightarrow> (error + json) \<times> state" where
  "getServerInfo E ctx s =
     (let guild = ctx_guild ctx
      in if \<not> truthy guild then (Inl NotInServer, s)
         else
           (case snowflake_iso E (js_prop guild ''id'') of
              Inl e \<Rightarrow> (Inl e, s)
            | Inr created \<Rightarrow>
                (Inr (JObj [(''id'', js_prop guild ''id''),
                            (''name'', js_prop guild ''name''),
                            (''description'', js_prop guild ''description''),
                            (''member_count'', js_prop guild ''memberCount''),
                            (''created_at'', JStr created),
                            (''owner_id'', js_prop guild ''ownerId''),
                            (''verification_level'', js_prop guild ''verificationLevel''),
                            (''boost_level'', js_prop guild ''premiumTier''),
                            (''boost_count'', js_prop guild ''premiumSubscriptionCount'')]), s)))"

definition clearHistory ::
  "env \<Rightarrow> json \<Rightarrow> ToolExecutionContext \<Rightarrow> state \<Rightarrow> (error + json) \<times> state" where
  "clearHistory E args ctx s =
     (if nullish args then (Inl destructure_error, s)
      else
        (let confirm = js_prop args ''confirm'';
             u = ctx_user_id ctx;
             c = ctx_channel_id ctx
         in if \<not> truthy confirm then (Inl ConfirmationRequired, s)
            else
              (let params = [JStr u, JStr c];
                   s1 = emit (Query DeleteHistory params) s
               in case db_rejects E s DeleteHistory params of
                    Some why \<Rightarrow> (Inl (UpstreamFailure why), s1)
                  | None \<Rightarrow>
                      (Inr (JObj [(''success'', JBool True),
                                  (''messages_deleted'',
                                     JNum (int (length (filter (in_pair u c) (message_history s))))),
                                  (''user_id'', JStr u),
                                  (''channel_id'', JStr c)]),
                       s1\<lparr>message_history :=
                            filter (\<lambda>r. \<not> in_pair u c r) (message_history s1)\<rparr>))))"

subsection \<open>Tool Dispatcher\<close>

text \<open>
  \<^verbatim>\<open>initializeTools\<close>: the catalog sent to the model, each tool by its name and the
  \<^verbatim>\<open>required\<close> list of its parameter schema.
\<close>

definition initializeTools :: "(string \<times> string list) list" where
  "initializeTools =
     [(''reply_to_user'', [''messages'']),
      (''get_memory'', [''keywords'']),
      (''save_memory'', [''keywords'', ''content'']),
      (''get_user_info'', []),
      (''get_time'', [''timezone'']),
      (''get_weather'', [''city'']),
      (''get_server_info'', []),
      (''clear_history'', [''confirm''])]"

definition executeTool ::
  "env \<Rightarrow> ToolCall \<Rightarrow> ToolExecutionContext \<Rightarrow> state \<Rightarrow> (error + json) \<times> state" where
  "executeTool E toolCall ctx s =
     (let name = tc_name toolCall
      in case JSON_parse E (tc_arguments toolCall) of
           Inl e \<Rightarrow> (Inl e, s)
         | Inr parsedArgs \<Rightarrow>
             if name = ''reply_to_user'' then replyToUser E parsedArgs ctx s
             else if name = ''get_memory'' then getMemory E parsedArgs ctx s
             else if name = ''save_memory'' then saveMemory E parsedArgs ctx s
             else if name = ''get_user_info'' then getUserInfo E parsedArgs ctx s
             else if name = ''get_time'' then getTime E parsedArgs s
             else if name = ''get_weather'' then getWeather E parsedArgs s
             else if name = ''get_server_info'' then getServerInfo E ctx s
             else if name = ''clear_history'' then clearHistory E parsedArgs ctx s
             else (Inl (UnknownTool name), s))"

subsection \<open>Orchestrator\<close>

definition executed_text :: "env \<Rightarrow> string \<Rightarrow> json \<Rightarrow> string" where
  "executed_text E name result =
     ''Tool '' @ name @ '' executed with result: '' @ JSON_stringify E result"

definition failed_text :: "string \<Rightarrow> error \<Rightarrow> string" where
  "failed_text name e = ''Tool '' @ name @ '' failed: '' @ error_to_string e"

text \<open>
  The loop \<^verbatim>\<open>for (const toolCall of choice.message.tool_calls)\<close> of
  \<^verbatim>\<open>generateResponse\<close>; \<open>text\<close> is \<^verbatim>\<open>choice.message.content || ''\<close>, and the list of
  messages is the array the loop pushes to.
\<close>

fun run_tool_calls ::
  "env \<Rightarrow> ToolExecutionContext \<Rightarrow> string \<Rightarrow> ToolCall list \<Rightarrow> chat_message list \<Rightarrow> state
     \<Rightarrow> chat_message list \<times> state" where
  "run_tool_calls E ctx text [] messages s = (messages, s)"
| "run_tool_calls E ctx text (toolCall # rest) messages s =
     (case executeTool E toolCall ctx s of
        (Inr result, s1) \<Rightarrow>
          run_tool_calls E ctx text rest
            (messages @ [\<lparr>msg_role = Assistant, msg_content = text\<rparr>,
                         \<lparr>msg_role = System,
                          msg_content = executed_text E (tc_name toolCall) result\<rparr>]) s1
      | (Inl e, s1) \<Rightarrow>
          run_tool_calls E ctx text rest
            (messages @ [\<lparr>msg_role = System,
                          msg_content = failed_text (tc_name toolCall) e\<rparr>]) s1)"

text \<open>\<^verbatim>\<open>x || ''\<close> on a string that may be null.\<close>

definition or_empty :: "string option \<Rightarrow> string" where
  "or_empty c = (case c of None \<Rightarrow> [] | Some t \<Rightarrow> t)"

text \<open>\<^verbatim>\<open>response.choices[0]\<close> and its \<^verbatim>\<open>message\<close>, \<open>None\<close> when either is missing.\<close>

definition first_message :: "completion \<Rightarrow> response_message option" where
  "first_message choices = (case choices of [] \<Rightarrow> None | m # _ \<Rightarrow> m)"

definition generateResponse ::
  "env \<Rightarrow> chat_message list \<Rightarrow> ToolExecutionContext option \<Rightarrow> state
     \<Rightarrow> (error + string) \<times> state" where
  "generateResponse E messages context s =
     (let s1 = emit (ModelCall messages True) s
      in case chat_completions_create E s messages True of
           Inl e \<Rightarrow> (Inl e, s1)
         | Inr response \<Rightarrow>
             (case first_message response of
                None \<Rightarrow> (Inl NoResponse, s1)
              | Some message \<Rightarrow>
                  (case (tool_calls message, context) of
                     (Some calls, Some ctx) \<Rightarrow>
                       (let (messages', s2) =
                              run_tool_calls E ctx (or_empty (rm_content message)) calls
                                messages s1;
                            s3 = emit (ModelCall messages' False) s2
                        in case chat_completions_create E s2 messages' False of
                             Inl e \<Rightarrow> (Inl e, s3)
                           | Inr finalResponse \<Rightarrow>
                               (Inr (or_empty
                                  (case first_message finalResponse of
                                     None \<Rightarrow> None
                                   | Some m \<Rightarrow> rm_content m)), s3))
                   | _ \<Rightarrow> (Inr (or_empty (rm_content message)), s1))))"

subsection \<open>Describing a tool cycle\<close>

text \<open>
  The specification's account of a cycle, to compare the loop with: the calls are
  executed one after the other, each from the state its predecessor left, and each
  outcome stands for the turns the specification gives it.
\<close>

fun tool_outcomes ::
  "env \<Rightarrow> ToolExecutionContext \<Rightarrow> ToolCall list \<Rightarrow> state \<Rightarrow> (error + json) list \<times> state" where
  "tool_outcomes E ctx [] s = ([], s)"
| "tool_outcomes E ctx (toolCall # rest) s =
     (let (r, s1) = executeTool E toolCall ctx s;
          (rs, s2) = tool_outcomes E ctx rest s1
      in (r # rs, s2))"

definition turns_of_outcome ::
  "env \<Rightarrow> string \<Rightarrow> ToolCall \<times> (error + json) \<Rightarrow> chat_message list" where
  "turns_of_outcome E text p =
     (case snd p of
        Inr result \<Rightarrow>
          [\<lparr>msg_role = Assistant, msg_content = text\<rparr>,
           \<lparr>msg_role = System, msg_content = executed_text E (tc_name (fst p)) result\<rparr>]
      | Inl e \<Rightarrow>
          [\<lparr>msg_role = System, msg_content = failed_text (tc_name (fst p)) e\<rparr>])"

fun is_model_call :: "event \<Rightarrow> bool" where
  "is_model_call (ModelCall _ _) = True"
| "is_model_call _ = False"

fun is_send :: "event \<Rightarrow> bool" where
  "is_send (Reply _) = True"
| "is_send (ReplyFailed _) = True"
| "is_send _ = False"

subsection \<open>A concrete environment\<close>

text \<open>
  Stand-ins for the collaborators, for evaluating the program on concrete inputs: a
  store that accepts every query and stamps rows with the number of events so far, a
  platform that delivers every reply, a clock that ticks once a second with every
  event, a model that answers \<open>''ok''\<close> without tool calls.
\<close>

fun quote :: "string \<Rightarrow> string" where
  "quote t = [CHR 0x22] @ t @ [CHR 0x22]"

fun stringify :: "json \<Rightarrow> string" where
  "stringify JUndef = ''null''"
| "stringify JNull = ''null''"
| "stringify (JBool b) = (if b then ''true'' else ''false'')"
| "stringify (JNum n) = show_int n"
| "stringify (JStr t) = quote t"
| "stringify (JArr xs) = ''['' @ join_with '','' (map stringify xs) @ '']''"
| "stringify (JObj fs) =
     ''{'' @ join_with '',''
       (map (\<lambda>(k, v). quote k @ '':'' @ stringify v) (filter (\<lambda>(k, v). v \<noteq> JUndef) fs))
     @ ''}''"

definition demo_parse :: "string \<Rightarrow> error + json" where
  \<open>demo_parse t =
     (if t = ''{}'' then Inr (JObj [])
      else if t = ''null'' then Inr JNull
      else if t = ''{"confirm":true}'' then Inr (JObj [(''confirm'', JBool True)])
      else Inl (SyntaxError ''Unexpected token''))\<close>

definition demo_env :: env where
  "demo_env =
     \<lparr>Date_now = (\<lambda>s k. 1000 * int (length (trace s))),
      JSON_parse = demo_parse,
      JSON_stringify = stringify,
      to_number = (\<lambda>v. None),
      encodeURIComponent = (\<lambda>t. t),
      db_rejects = (\<lambda>s q ps. None),
      db_timestamp = (\<lambda>s. int (length (trace s))),
      pg_serialize = stringify,
      ts_search = (\<lambda>q rows. filter (\<lambda>m. memory_keywords m = q) rows),
      chat_completions_create =
        (\<lambda>s ms tools. Inr [Some \<lparr>rm_content = Some ''ok'', tool_calls = None\<rparr>]),
      message_reply = (\<lambda>s v. None),
      users_fetch = (\<lambda>s v. Inl (UpstreamFailure ''Unknown User'')),
      fetch = (\<lambda>s url. Inr \<lparr>ok = False, status = 404, body = Inr JNull\<rparr>),
      format_time = (\<lambda>tz t. Inr (show_int t)),
      toISOString = show_int,
      snowflake_iso = (\<lambda>v. Inr (js_to_string v))\<rparr>"

definition demo_ctx :: ToolExecutionContext where
  "demo_ctx =
     \<lparr>ctx_user_id = ''u1'', ctx_channel_id = ''c1'',
      ctx_user = JObj [(''id'', JStr ''u1''), (''username'', JStr ''ana'')],
      ctx_guild = JUndef\<rparr>"

definition empty_state :: state where
  "empty_state =
     \<lparr>message_history = [], history_seq = 0, memories = [], memories_seq = 0,
      cooldowns = Map.empty, trace = []\<rparr>"

definition append_turns :: "env \<Rightarrow> string \<Rightarrow> string \<Rightarrow> string list \<Rightarrow> state \<Rightarrow> state" where
  "append_turns E u c ts s = fold (\<lambda>t. saveMessageToHistory E u c User (JStr t)) ts s"

definition ten_turns :: state where
  "ten_turns =
     append_turns demo_env ''u1'' ''c1''
       [''t1'', ''t2'', ''t3'', ''t4'', ''t5'', ''t6'', ''t7'', ''t8'', ''t9'', ''t10'']
       empty_state"

definition two_channels :: state where
  "two_channels = append_turns demo_env ''u1'' ''c2'' [''x1'', ''x2''] ten_turns"

definition clock_at :: "int \<Rightarrow> env" where
  "clock_at t = demo_env\<lparr>Date_now := (\<lambda>s k. t)\<rparr>"


definition refusing :: "int \<Rightarrow> env" where
  "refusing t = (clock_at t)\<lparr>message_reply := (\<lambda>s v. Some ''Missing Access'')\<rparr>"

definition replied_at :: "int \<Rightarrow> state" where
  "replied_at t =
     empty_state\<lparr>cooldowns := [cooldownKey ''u1'' \<mapsto> \<lparr>userId = ''u1'', lastUsed = t\<rparr>]\<rparr>"

definition two_messages :: json where
  "two_messages = JObj [(''messages'', JArr [JStr ''a'', JStr ''b''])]"

definition model_calls :: "state \<Rightarrow> event list" where
  "model_calls s = filter is_model_call (trace s)"

definition dance_call :: ToolCall where
  "dance_call = \<lparr>tc_id = ''call_1'', tc_name = ''dance'', tc_arguments = ''{}''\<rparr>"

definition clear_call :: ToolCall where
  \<open>clear_call =
     \<lparr>tc_id = ''call_2'', tc_name = ''clear_history'',
      tc_arguments = ''{"confirm":true}''\<rparr>\<close>

text \<open>
  A model that asks for two tools when it is given the catalog (the first of them
  unknown) and says \<open>''done''\<close> when it is not.
\<close>

definition two_tools_env :: env where
  "two_tools_env =
     demo_env\<lparr>chat_completions_create :=
       (\<lambda>s ms tools.
          if tools
          then Inr [Some \<lparr>rm_content = None, tool_calls = Some [dance_call, clear_call]\<rparr>]
          else Inr [Some \<lparr>rm_content = Some ''done'', tool_calls = None\<rparr>])\<rparr>"

text \<open>A model that answers with an empty list of tool calls.\<close>

definition empty_calls_env :: env where
  "empty_calls_env =
     demo_env\<lparr>chat_completions_create :=
       (\<lambda>s ms tools.
          if tools then Inr [Some \<lparr>rm_content = Some ''hello'', tool_calls = Some []\<rparr>]
          else Inr [Some \<lparr>rm_content = Some ''again'', tool_calls = None\<rparr>])\<rparr>"

definition hi :: "chat_message list" where
  "hi = [\<lparr>msg_role = User, msg_content = ''hi''\<rparr>]"

text \<open>Payloads and calls used in the examples.\<close>

definition weather_call :: ToolCall where
  "weather_call = \<lparr>tc_id = ''call_1'', tc_name = ''get_weather'', tc_arguments = ''{}''\<rparr>"

definition three_strings :: json where
  "three_strings = JObj [(''messages'', JArr [JStr ''a'', JStr ''b'', JStr ''c''])]"

text \<open>The specification's default delay: none for the first entry, 1000 ms for a later one.\<close>

definition default_delay :: "nat \<Rightarrow> json" where
  "default_delay index = JNum (if index > 0 then 1000 else 0)"

text \<open>
  The primary key of \<^verbatim>\<open>message_history\<close>: row ids are unique, and none is beyond the
  last value the \<^verbatim>\<open>SERIAL\<close> sequence gave out.
\<close>

definition history_keys_ok :: "state \<Rightarrow> bool" where
  "history_keys_ok s \<longleftrightarrow>
     distinct (map row_id (message_history s))
     \<and> list_all (\<lambda>r. row_id r \<le> history_seq s) (message_history s)"

section \<open>Properties\<close>

subsection \<open>Evaluating the concrete environment\<close>

lemmas store_eval =
  append_turns_def saveMessageToHistory_def demo_env_def empty_state_def emit_def Let_def

subsection \<open>History Store\<close>

lemma sorted_take_le_drop:
  assumes "sorted (map f xs)" "a \<in> set (take n xs)" "b \<in> set (drop n xs)"
  shows "f a \<le> f b"
proof -
  have "sorted (map f (take n xs) @ map f (drop n xs))"
    using assms(1) by (simp flip: map_append)
  then show ?thesis using assms(2,3) by (auto simp: sorted_append)
qed

lemma desc_take_ge_drop:
  assumes "a \<in> set (take n (order_by_created_at_desc xs))"
    and "b \<in> set (drop n (order_by_created_at_desc xs))"
  shows "created_at b \<le> created_at a"
proof -
  let ?ys = "sort_key created_at xs"
  have a: "a \<in> set (drop (length ?ys - n) ?ys)"
    using assms(1) by (simp add: order_by_created_at_desc_def take_rev)
  have b: "b \<in> set (take (length ?ys - n) ?ys)"
    using assms(2) by (simp add: order_by_created_at_desc_def drop_rev)
  have "sorted (map created_at ?ys)" by simp
  from sorted_take_le_drop[OF this b a] show ?thesis .
qed

lemma set_order_desc: "set (order_by_created_at_desc xs) = set xs"
  by (simp add: order_by_created_at_desc_def)

lemma length_order_desc: "length (order_by_created_at_desc xs) = length xs"
  by (simp add: order_by_created_at_desc_def)

lemma distinct_order_desc: "distinct (order_by_created_at_desc xs) = distinct xs"
  by (simp add: order_by_created_at_desc_def)

text \<open>
  C8. When the store answers the query and the limit is not negative,
  \<^verbatim>\<open>getMessageHistory\<close> (the specification's \<open>fetchRecent\<close>) returns, of the turns of the
  pair sorted by ascending \<open>created_at\<close>, the last \<open>limit\<close> ones (all of them when there
  are fewer): the result is in ascending chronological order, holds
  \<open>min limit count\<close> turns, all of the pair, and no turn of the pair left out is more
  recent than a returned one.
\<close>

theorem fetchRecent_most_recent_ascending:
  assumes ok: "db_rejects E s SelectHistory [JStr u, JStr c, JNum limit] = None"
    and lim: "0 \<le> limit"
  defines "xs \<equiv> sort_key created_at (filter (in_pair u c) (message_history s))"
  defines "rows \<equiv> fst (getMessageHistory E u c limit s)"
  shows "rows = drop (length xs - nat limit) xs
       \<and> sorted (map created_at rows)
       \<and> length rows = min (nat limit) (length xs)
       \<and> (\<forall>r \<in> set rows. in_pair u c r \<and> r \<in> set (message_history s))
       \<and> (\<forall>old \<in> set (take (length xs - nat limit) xs). \<forall>r \<in> set rows.
             created_at old \<le> created_at r)"
proof -
  have rows: "rows = drop (length xs - nat limit) xs"
    using ok lim
    by (simp add: rows_def xs_def getMessageHistory_def order_by_created_at_desc_def
        Let_def take_rev)
  have srt: "sorted (map created_at xs)"
    by (simp add: xs_def)
  have 1: "sorted (map created_at rows)"
    unfolding rows using srt by (simp add: drop_map[symmetric] sorted_wrt_drop del: drop_map)
  have 2: "length rows = min (nat limit) (length xs)"
    unfolding rows by auto
  have 3: "\<forall>r \<in> set rows. in_pair u c r \<and> r \<in> set (message_history s)"
  proof
    fix r assume "r \<in> set rows"
    then have "r \<in> set xs" unfolding rows by (rule in_set_dropD)
    then show "in_pair u c r \<and> r \<in> set (message_history s)"
      by (simp add: xs_def)
  qed
  have 4: "\<forall>old \<in> set (take (length xs - nat limit) xs). \<forall>r \<in> set rows.
             created_at old \<le> created_at r"
    unfolding rows using sorted_take_le_drop[OF srt] by blast
  show ?thesis using rows 1 2 3 4 by blast
qed

text \<open>
  After ten turns are appended for a pair, fetching with limit 8 gives the turns
  \<open>t3\<close> to \<open>t10\<close>, oldest first.
\<close>

theorem fetchRecent_witness:
  "db_rejects demo_env ten_turns SelectHistory [JStr ''u1'', JStr ''c1'', JNum 8] = None
   \<and> (0::int) \<le> 8
   \<and> map content (fst (getMessageHistory demo_env ''u1'' ''c1'' 8 ten_turns))
       = [''t3'', ''t4'', ''t5'', ''t6'', ''t7'', ''t8'', ''t9'', ''t10'']
   \<and> sorted (map created_at (fst (getMessageHistory demo_env ''u1'' ''c1'' 8 ten_turns)))
   \<and> length (fst (getMessageHistory demo_env ''u1'' ''c1'' 8 ten_turns)) = 8"
proof -
  have h1: "db_rejects demo_env ten_turns SelectHistory
              [JStr ''u1'', JStr ''c1'', JNum 8] = None"
    by (simp add: demo_env_def)
  have h2: "(0::int) \<le> 8" by simp
  have run: "map content (fst (getMessageHistory demo_env ''u1'' ''c1'' 8 ten_turns))
       = [''t3'', ''t4'', ''t5'', ''t6'', ''t7'', ''t8'', ''t9'', ''t10'']"
    by (simp add: getMessageHistory_def order_by_created_at_desc_def in_pair_def
        ten_turns_def store_eval)
  have "length (map content (fst (getMessageHistory demo_env ''u1'' ''c1'' 8 ten_turns))) = 8"
    unfolding run by simp
  then have len: "length (fst (getMessageHistory demo_env ''u1'' ''c1'' 8 ten_turns)) = 8"
    by simp
  note t = fetchRecent_most_recent_ascending[OF h1 h2]
  have srt: "sorted (map created_at (fst (getMessageHistory demo_env ''u1'' ''c1'' 8 ten_turns)))"
    by (rule t[THEN conjunct2, THEN conjunct1])
  show ?thesis
    by (intro conjI) (rule h1 h2 run srt len)+
qed

text \<open>
  C9. When the store answers the statement, \<open>keepLast\<close> is not negative and row ids are
  unique (the table's primary key), \<^verbatim>\<open>cleanOldHistory\<close> (the specification's \<open>prune\<close>)
  keeps, of the rows of the pair, exactly the \<open>keepLast\<close> most recent by \<open>created_at\<close>
  and leaves the rows of every other pair as they were; afterwards the pair has
  \<open>min keepLast count\<close> rows, so at most 20 after a prune to 20, and no deleted row is
  more recent than a kept one.
\<close>

theorem prune_keeps_most_recent:
  assumes ok: "db_rejects E s PruneHistory [JStr u, JStr c, JNum keepLast] = None"
    and k: "0 \<le> keepLast"
    and pk: "distinct (map row_id (message_history s))"
  defines "s' \<equiv> cleanOldHistory E u c keepLast s"
  defines "mine \<equiv> filter (in_pair u c) (message_history s)"
  defines "recent \<equiv> take (nat keepLast) (order_by_created_at_desc mine)"
  shows "filter (in_pair u c) (message_history s') = filter (\<lambda>r. r \<in> set recent) mine
       \<and> filter (\<lambda>r. \<not> in_pair u c r) (message_history s')
           = filter (\<lambda>r. \<not> in_pair u c r) (message_history s)
       \<and> length (filter (in_pair u c) (message_history s')) = min (nat keepLast) (length mine)
       \<and> length (filter (in_pair u c) (message_history s')) \<le> nat keepLast
       \<and> (\<forall>gone \<in> set mine - set recent. \<forall>r \<in> set recent. created_at gone \<le> created_at r)"
proof -
  have sub: "set recent \<subseteq> set (message_history s)"
    using set_take_subset[of "nat keepLast" "order_by_created_at_desc mine"]
    by (auto simp: recent_def mine_def set_order_desc)
  have inj: "inj_on row_id (set (message_history s))"
    using pk by (simp add: distinct_map)
  have mem: "row_id r \<in> set (map row_id recent) \<longleftrightarrow> r \<in> set recent"
    if "r \<in> set (message_history s)" for r
    using that sub inj by (auto simp: inj_on_def)
  have hist: "message_history s' =
      filter (\<lambda>r. \<not> (in_pair u c r \<and> r \<notin> set recent)) (message_history s)"
    using ok k mem
    by (auto simp: s'_def cleanOldHistory_def Let_def emit_def recent_def mine_def
        intro!: filter_cong)
  have 1: "filter (in_pair u c) (message_history s') = filter (\<lambda>r. r \<in> set recent) mine"
    unfolding hist mine_def by (auto intro!: filter_cong)
  have 2: "filter (\<lambda>r. \<not> in_pair u c r) (message_history s')
           = filter (\<lambda>r. \<not> in_pair u c r) (message_history s)"
    unfolding hist by (auto intro!: filter_cong)
  have dm: "distinct mine"
    using pk by (simp add: mine_def distinct_map)
  have dr: "distinct recent"
    using dm by (simp add: recent_def distinct_order_desc)
  have rm: "set recent \<subseteq> set mine"
    using set_take_subset[of "nat keepLast" "order_by_created_at_desc mine"]
    by (simp add: recent_def set_order_desc)
  have "length (filter (\<lambda>r. r \<in> set recent) mine) = card (set recent)"
  proof -
    have "{x. x \<in> set recent} \<inter> set mine = set recent" using rm by auto
    then show ?thesis using dm by (simp add: distinct_length_filter)
  qed
  also have "\<dots> = length recent" using dr by (rule distinct_card)
  also have "\<dots> = min (nat keepLast) (length mine)"
    by (simp add: recent_def length_order_desc min.commute)
  finally have 3: "length (filter (in_pair u c) (message_history s'))
                     = min (nat keepLast) (length mine)"
    using 1 by simp
  have 5: "\<forall>gone \<in> set mine - set recent. \<forall>r \<in> set recent. created_at gone \<le> created_at r"
  proof (intro ballI)
    fix gone r assume g: "gone \<in> set mine - set recent" and r: "r \<in> set recent"
    have "set mine = set (take (nat keepLast) (order_by_created_at_desc mine))
                   \<union> set (drop (nat keepLast) (order_by_created_at_desc mine))"
      by (metis append_take_drop_id set_append set_order_desc)
    with g have "gone \<in> set (drop (nat keepLast) (order_by_created_at_desc mine))"
      by (auto simp: recent_def)
    with r show "created_at gone \<le> created_at r"
      unfolding recent_def by (blast intro: desc_take_ge_drop)
  qed
  from 1 2 3 5 show ?thesis by simp
qed

text \<open>
  Pruning the pair \<open>(u1, c1)\<close> to its last 3 rows, in a table that holds ten rows of
  that pair and two of another channel.
\<close>

theorem prune_witness:
  "db_rejects demo_env two_channels PruneHistory [JStr ''u1'', JStr ''c1'', JNum 3] = None
   \<and> (0::int) \<le> 3
   \<and> distinct (map row_id (message_history two_channels))
   \<and> map content (message_history (cleanOldHistory demo_env ''u1'' ''c1'' 3 two_channels))
       = [''t8'', ''t9'', ''t10'', ''x1'', ''x2'']
   \<and> length (filter (in_pair ''u1'' ''c1'')
        (message_history (cleanOldHistory demo_env ''u1'' ''c1'' 3 two_channels))) \<le> 3"
proof -
  have h1: "db_rejects demo_env two_channels PruneHistory
              [JStr ''u1'', JStr ''c1'', JNum 3] = None"
    by (simp add: demo_env_def)
  have h2: "(0::int) \<le> 3" by simp
  have h3: "distinct (map row_id (message_history two_channels))"
    by (simp add: two_channels_def ten_turns_def store_eval)
  have run: "map content (message_history (cleanOldHistory demo_env ''u1'' ''c1'' 3 two_channels))
       = [''t8'', ''t9'', ''t10'', ''x1'', ''x2'']"
    by (simp add: cleanOldHistory_def order_by_created_at_desc_def in_pair_def
        two_channels_def ten_turns_def store_eval)
  note t = prune_keeps_most_recent[OF h1 h2 h3]
  have "length (filter (in_pair ''u1'' ''c1'')
        (message_history (cleanOldHistory demo_env ''u1'' ''c1'' 3 two_channels))) \<le> nat 3"
    by (rule t[THEN conjunct2, THEN conjunct2, THEN conjunct2, THEN conjunct1])
  then have le: "length (filter (in_pair ''u1'' ''c1'')
        (message_history (cleanOldHistory demo_env ''u1'' ''c1'' 3 two_channels))) \<le> 3"
    by simp
  show ?thesis
    by (intro conjI) (rule h1 h2 h3 run le)+
qed

subsection \<open>Reply Pacer\<close>

lemma ceil_div_ceiling: "ceil_div x 1000 = \<lceil>real_of_int x / 1000\<rceil>"
  using ceiling_divide_eq_div[of x 1000, where 'a = real] by (simp add: ceil_div_def)

lemma cooldowns_emit [simp]: "cooldowns (emit e s) = cooldowns s"
  by (simp add: emit_def)

lemma cooldowns_sleep [simp]: "cooldowns (sleep E v s) = cooldowns s"
  by (simp add: sleep_def)

lemma cooldowns_saveMessageToHistory [simp]:
  "cooldowns (saveMessageToHistory E u c r v s) = cooldowns s"
  by (simp add: saveMessageToHistory_def Let_def split: option.splits)

lemma cooldowns_send_messages:
  "cooldowns (snd (send_messages E ctx i ms results s)) = cooldowns s"
  by (induction ms arbitrary: i results s) (simp_all add: Let_def split: option.splits)


lemma cooldowns_deliver: "cooldowns (snd (deliver E ctx timeout ms s)) = cooldowns s"
proof -
  let ?s1 = "if js_positive E timeout then sleep E timeout s else s"
  have "cooldowns (snd (send_messages E ctx 0 ms [] ?s1)) = cooldowns ?s1"
    by (rule cooldowns_send_messages)
  then show ?thesis
    by (cases "send_messages E ctx 0 ms [] ?s1")
       (auto simp: deliver_def Let_def split: sum.splits)
qed


lemma gate_rejects:
  assumes "\<not> nullish args"
    and "normalize_messages (js_prop args ''messages'') = Inr ms"
    and "length ms > 1"
    and "cooldowns s (cooldownKey (ctx_user_id ctx)) = Some entry"
    and "Date_now E s 0 - lastUsed entry < 2000"
  shows "replyToUser E args ctx s =
           (Inl (RateLimited
                  \<lceil>real_of_int (2000 - (Date_now E s 1 - lastUsed entry)) / 1000\<rceil>), s)"
  using assms
  by (simp add: replyToUser_def cooldown_gate_def Let_def globalCooldown_def ceil_div_ceiling)

text \<open>The reading that the gate stores: the first it makes when the key has no entry
  (no test was made), the second otherwise.\<close>

lemma gate_passes:
  assumes "\<not> nullish args"
    and "normalize_messages (js_prop args ''messages'') = Inr ms"
    and "length ms > 1"
    and "\<forall>entry. cooldowns s (cooldownKey (ctx_user_id ctx)) = Some entry
           \<longrightarrow> \<not> Date_now E s 0 - lastUsed entry < 2000"
  shows "replyToUser E args ctx s =
           deliver E ctx (js_default (JNum 0) (js_prop args ''timeout'')) ms
             (s\<lparr>cooldowns := (cooldowns s)(cooldownKey (ctx_user_id ctx) \<mapsto>
                  \<lparr>userId = ctx_user_id ctx,
                   lastUsed = (case cooldowns s (cooldownKey (ctx_user_id ctx)) of
                                 None \<Rightarrow> Date_now E s 0
                               | Some _ \<Rightarrow> Date_now E s 1)\<rparr>)\<rparr>)"
proof -
  have "cooldown_gate E (ctx_user_id ctx) (length ms) s =
          Inr (s\<lparr>cooldowns := (cooldowns s)(cooldownKey (ctx_user_id ctx) \<mapsto>
                  \<lparr>userId = ctx_user_id ctx,
                   lastUsed = (case cooldowns s (cooldownKey (ctx_user_id ctx)) of
                                 None \<Rightarrow> Date_now E s 0
                               | Some _ \<Rightarrow> Date_now E s 1)\<rparr>)\<rparr>)"
    using assms(3,4)
    by (auto simp: cooldown_gate_def globalCooldown_def split: option.splits)
  then show ?thesis using assms(1,2) by (simp add: replyToUser_def Let_def)
qed




lemmas reply_eval =
  replyToUser_def deliver_def cooldown_gate_def normalize_messages_def normalize_entry_def
  nullish_def js_default_def js_positive_def sleep_def cooldownKey_def globalCooldown_def
  sent_status_def ceil_div_def show_int_def digit_char_def


text \<open>
  C10. A multi-entry \<^verbatim>\<open>reply_to_user\<close> call that passes the gate runs its whole
  delivery (leading timeout, delays, sends, history writes) from the state \<open>armed\<close>, in
  which the user's entry already holds the current time (the reading \<open>now\<close> that the
  gate made for the record) and no event has happened yet. Whatever the delivery
  returns, an error included, the entry still holds that time afterwards; so any later
  multi-entry call for the user whose test reads the clock less than 2000 ms after it,
  from a state that has this entry, fails with \<open>RateLimited\<close> and changes nothing.
\<close>

theorem cooldown_consumed_before_send:
  fixes E :: env and ctx :: ToolExecutionContext and s :: state
  assumes args: "\<not> nullish args"
    and norm: "normalize_messages (js_prop args ''messages'') = Inr ms"
    and multi: "length ms > 1"
    and pass: "\<forall>entry. cooldowns s (cooldownKey (ctx_user_id ctx)) = Some entry
                 \<longrightarrow> \<not> Date_now E s 0 - lastUsed entry < 2000"
  defines "key \<equiv> cooldownKey (ctx_user_id ctx)"
  defines "now \<equiv> (case cooldowns s key of None \<Rightarrow> Date_now E s 0
                                           | Some _ \<Rightarrow> Date_now E s 1)"
  defines "armed \<equiv> s\<lparr>cooldowns := (cooldowns s)
                        (key \<mapsto> \<lparr>userId = ctx_user_id ctx, lastUsed = now\<rparr>)\<rparr>"
  defines "out \<equiv> replyToUser E args ctx s"
  shows "out = deliver E ctx (js_default (JNum 0) (js_prop args ''timeout'')) ms armed
       \<and> trace armed = trace s
       \<and> cooldowns (snd out) key = Some \<lparr>userId = ctx_user_id ctx, lastUsed = now\<rparr>
       \<and> (\<forall>again ms2 s2.
            \<not> nullish again \<and> normalize_messages (js_prop again ''messages'') = Inr ms2
            \<and> length ms2 > 1 \<and> cooldowns s2 key = cooldowns (snd out) key
            \<and> Date_now E s2 0 - now < 2000 \<longrightarrow>
            replyToUser E again ctx s2
              = (Inl (RateLimited
                       \<lceil>real_of_int (2000 - (Date_now E s2 1 - now)) / 1000\<rceil>), s2))"
proof -
  have 1: "out = deliver E ctx (js_default (JNum 0) (js_prop args ''timeout'')) ms armed"
    unfolding out_def armed_def key_def now_def
    by (rule gate_passes[OF args norm multi pass])
  have 2: "trace armed = trace s"
    by (simp add: armed_def)
  have 3: "cooldowns (snd out) key = Some \<lparr>userId = ctx_user_id ctx, lastUsed = now\<rparr>"
    unfolding 1 by (simp add: cooldowns_deliver armed_def)
  have 4: "replyToUser E again ctx s2
              = (Inl (RateLimited
                       \<lceil>real_of_int (2000 - (Date_now E s2 1 - now)) / 1000\<rceil>), s2)"
    if "\<not> nullish again" "normalize_messages (js_prop again ''messages'') = Inr ms2"
      "length ms2 > 1" "cooldowns s2 key = cooldowns (snd out) key"
      "Date_now E s2 0 - now < 2000" for again ms2 s2
  proof -
    have "cooldowns s2 (cooldownKey (ctx_user_id ctx))
            = Some \<lparr>userId = ctx_user_id ctx, lastUsed = now\<rparr>"
      using that(4) 3 by (simp add: key_def)
    from gate_rejects[OF that(1,2,3) this] that(5) show ?thesis by simp
  qed
  from 1 2 3 4 show ?thesis by blast
qed

text \<open>
  The platform refuses the first of two messages: the call fails having delivered
  nothing, the entry is recorded all the same, and the retry is rate limited.
\<close>

theorem cooldown_consumed_witness:
  "\<not> nullish two_messages
   \<and> normalize_messages (js_prop two_messages ''messages'')
       = Inr [\<lparr>nm_content = JStr ''a'', nm_cooldown = JNum 0\<rparr>,
              \<lparr>nm_content = JStr ''b'', nm_cooldown = JNum 1000\<rparr>]
   \<and> replyToUser (refusing 5000) two_messages demo_ctx empty_state
       = (Inl (UpstreamFailure ''Missing Access''),
          empty_state\<lparr>cooldowns := [cooldownKey ''u1'' \<mapsto> \<lparr>userId = ''u1'', lastUsed = 5000\<rparr>],
                      trace := [ReplyFailed (JStr ''a'')]\<rparr>)
   \<and> replyToUser (refusing 5000) two_messages demo_ctx
        (replied_at 5000\<lparr>trace := [ReplyFailed (JStr ''a'')]\<rparr>)
       = (Inl (RateLimited 2), replied_at 5000\<lparr>trace := [ReplyFailed (JStr ''a'')]\<rparr>)"
proof -
  let ?ms = "[\<lparr>nm_content = JStr ''a'', nm_cooldown = JNum 0\<rparr>,
              \<lparr>nm_content = JStr ''b'', nm_cooldown = JNum 1000\<rparr>]"
  let ?after = "replied_at 5000\<lparr>trace := [ReplyFailed (JStr ''a'')]\<rparr>"
  have h1: "\<not> nullish two_messages"
    by (simp add: nullish_def two_messages_def)
  have h2: "normalize_messages (js_prop two_messages ''messages'') = Inr ?ms"
    by (simp add: two_messages_def normalize_messages_def normalize_entry_def)
  have h3: "length ?ms > 1" by simp
  have h4: "\<forall>entry. cooldowns empty_state (cooldownKey (ctx_user_id demo_ctx)) = Some entry
              \<longrightarrow> \<not> Date_now (refusing 5000) empty_state 0 - lastUsed entry < 2000"
    by (simp add: empty_state_def)
  have run: "replyToUser (refusing 5000) two_messages demo_ctx empty_state
       = (Inl (UpstreamFailure ''Missing Access''),
          empty_state\<lparr>cooldowns := [cooldownKey ''u1'' \<mapsto> \<lparr>userId = ''u1'', lastUsed = 5000\<rparr>],
                      trace := [ReplyFailed (JStr ''a'')]\<rparr>)"
    by (simp add: reply_eval two_messages_def refusing_def clock_at_def demo_env_def
        demo_ctx_def empty_state_def emit_def)
  note t = cooldown_consumed_before_send[OF h1 h2 h3 h4,
      THEN conjunct2, THEN conjunct2, THEN conjunct2, rule_format,
      of two_messages ?ms ?after]
  have "Date_now (refusing 5000) st k = 5000" for st k
    by (simp add: refusing_def clock_at_def)
  moreover have "cooldowns empty_state (cooldownKey (ctx_user_id demo_ctx)) = None"
    by (simp add: empty_state_def)
  moreover have "cooldowns ?after (cooldownKey (ctx_user_id demo_ctx))
      = cooldowns (snd (replyToUser (refusing 5000) two_messages demo_ctx empty_state))
          (cooldownKey (ctx_user_id demo_ctx))"
    unfolding run by (simp add: replied_at_def demo_ctx_def empty_state_def)
  ultimately have again: "replyToUser (refusing 5000) two_messages demo_ctx ?after
       = (Inl (RateLimited 2), ?after)"
    using t h1 h2 by simp
  show ?thesis
    by (intro conjI) (rule h1 h2 run again)+
qed

subsection \<open>Tool Dispatcher\<close>

text \<open>
  C7. \<^verbatim>\<open>clearHistory\<close> with \<open>confirm\<close> absent or false fails with
  \<open>ConfirmationRequired\<close> and leaves the state as it was (no row deleted, no query
  sent); with \<open>confirm\<close> true, when the store answers the statement, it deletes every
  row of the current (user, channel) pair, leaves all other rows, and returns the number
  of rows it deleted.
\<close>

theorem clear_history_confirmation:
  fixes E :: env and ctx :: ToolExecutionContext and s :: state and args :: json
  defines "u \<equiv> ctx_user_id ctx"
  defines "c \<equiv> ctx_channel_id ctx"
  defines "out \<equiv> clearHistory E args ctx s"
  shows "(\<not> nullish args
          \<and> (js_prop args ''confirm'' = JUndef \<or> js_prop args ''confirm'' = JBool False)
          \<longrightarrow> out = (Inl ConfirmationRequired, s))
       \<and> (js_prop args ''confirm'' = JBool True
          \<and> db_rejects E s DeleteHistory [JStr u, JStr c] = None
          \<longrightarrow> fst out = Inr (JObj [(''success'', JBool True),
                    (''messages_deleted'',
                       JNum (int (length (filter (in_pair u c) (message_history s))))),
                    (''user_id'', JStr u), (''channel_id'', JStr c)])
              \<and> filter (in_pair u c) (message_history (snd out)) = []
              \<and> filter (\<lambda>r. \<not> in_pair u c r) (message_history (snd out))
                  = filter (\<lambda>r. \<not> in_pair u c r) (message_history s)
              \<and> message_history (snd out)
                  = filter (\<lambda>r. \<not> in_pair u c r) (message_history s))"
proof (intro conjI impI)
  assume "\<not> nullish args
          \<and> (js_prop args ''confirm'' = JUndef \<or> js_prop args ''confirm'' = JBool False)"
  then show "out = (Inl ConfirmationRequired, s)"
    by (auto simp: out_def clearHistory_def Let_def)
next
  assume a: "js_prop args ''confirm'' = JBool True
          \<and> db_rejects E s DeleteHistory [JStr u, JStr c] = None"
  then have n: "\<not> nullish args"
    by (auto simp: nullish_def)
  have out: "out = (Inr (JObj [(''success'', JBool True),
                    (''messages_deleted'',
                       JNum (int (length (filter (in_pair u c) (message_history s))))),
                    (''user_id'', JStr u), (''channel_id'', JStr c)]),
                  (emit (Query DeleteHistory [JStr u, JStr c]) s)
                    \<lparr>message_history := filter (\<lambda>r. \<not> in_pair u c r) (message_history s)\<rparr>)"
    using a n by (simp add: out_def clearHistory_def Let_def u_def c_def emit_def)
  show "fst out = Inr (JObj [(''success'', JBool True),
                    (''messages_deleted'',
                       JNum (int (length (filter (in_pair u c) (message_history s))))),
                    (''user_id'', JStr u), (''channel_id'', JStr c)])"
    unfolding out by simp
  show "message_history (snd out) = filter (\<lambda>r. \<not> in_pair u c r) (message_history s)"
    unfolding out by simp
  then show "filter (in_pair u c) (message_history (snd out)) = []"
    by simp
  show "filter (\<lambda>r. \<not> in_pair u c r) (message_history (snd out))
          = filter (\<lambda>r. \<not> in_pair u c r) (message_history s)"
    unfolding out by simp
qed

text \<open>
  On the table with ten rows of \<open>(u1, c1)\<close> and two of \<open>(u1, c2)\<close>: without
  confirmation nothing happens; with it the ten rows go and 10 is returned.
\<close>

theorem clear_history_witness:
  "clearHistory demo_env (JObj [(''confirm'', JBool False)]) demo_ctx two_channels
     = (Inl ConfirmationRequired, two_channels)
   \<and> clearHistory demo_env (JObj []) demo_ctx two_channels
     = (Inl ConfirmationRequired, two_channels)
   \<and> fst (clearHistory demo_env (JObj [(''confirm'', JBool True)]) demo_ctx two_channels)
     = Inr (JObj [(''success'', JBool True), (''messages_deleted'', JNum 10),
                  (''user_id'', JStr ''u1''), (''channel_id'', JStr ''c1'')])
   \<and> map content (message_history
        (snd (clearHistory demo_env (JObj [(''confirm'', JBool True)]) demo_ctx two_channels)))
     = [''x1'', ''x2'']"
proof -
  note t = clear_history_confirmation[where E = demo_env and ctx = demo_ctx and s = two_channels]
  have 1: "clearHistory demo_env (JObj [(''confirm'', JBool False)]) demo_ctx two_channels
     = (Inl ConfirmationRequired, two_channels)"
    using t[where args = "JObj [(''confirm'', JBool False)]", THEN conjunct1]
    by (simp add: nullish_def)
  have 2: "clearHistory demo_env (JObj []) demo_ctx two_channels
     = (Inl ConfirmationRequired, two_channels)"
    using t[where args = "JObj []", THEN conjunct1]
    by (simp add: nullish_def)
  have rows: "map (\<lambda>r. (channel_id r, user_id r, content r)) (message_history two_channels)
     = [(''c1'', ''u1'', ''t1''), (''c1'', ''u1'', ''t2''), (''c1'', ''u1'', ''t3''),
        (''c1'', ''u1'', ''t4''), (''c1'', ''u1'', ''t5''), (''c1'', ''u1'', ''t6''),
        (''c1'', ''u1'', ''t7''), (''c1'', ''u1'', ''t8''), (''c1'', ''u1'', ''t9''),
        (''c1'', ''u1'', ''t10''), (''c2'', ''u1'', ''x1''), (''c2'', ''u1'', ''x2'')]"
    by (simp add: two_channels_def ten_turns_def store_eval)
  have cnt: "length (filter (in_pair ''u1'' ''c1'') (message_history two_channels)) = 10"
    by (simp add: two_channels_def ten_turns_def store_eval in_pair_def)
  have rest: "map content (filter (\<lambda>r. \<not> in_pair ''u1'' ''c1'' r) (message_history two_channels))
     = [''x1'', ''x2'']"
    by (simp add: two_channels_def ten_turns_def store_eval in_pair_def)
  note t3 = t[where args = "JObj [(''confirm'', JBool True)]", THEN conjunct2, rule_format]
  have pre: "js_prop (JObj [(''confirm'', JBool True)]) ''confirm'' = JBool True
      \<and> db_rejects demo_env two_channels DeleteHistory
          [JStr (ctx_user_id demo_ctx), JStr (ctx_channel_id demo_ctx)] = None"
    by (simp add: demo_env_def)
  have 3: "fst (clearHistory demo_env (JObj [(''confirm'', JBool True)]) demo_ctx two_channels)
     = Inr (JObj [(''success'', JBool True), (''messages_deleted'', JNum 10),
                  (''user_id'', JStr ''u1''), (''channel_id'', JStr ''c1'')])"
    using t3[OF pre, THEN conjunct1] cnt by (simp add: demo_ctx_def)
  have 4: "map content (message_history
        (snd (clearHistory demo_env (JObj [(''confirm'', JBool True)]) demo_ctx two_channels)))
     = [''x1'', ''x2'']"
    using t3[OF pre, THEN conjunct2, THEN conjunct2, THEN conjunct2] rest
    by (simp add: demo_ctx_def)
  show ?thesis
    by (intro conjI) (rule 1 2 3 4)+
qed

text \<open>The catalog has eight tools, and \<^verbatim>\<open>executeTool\<close> has a case for each.\<close>

lemma catalog_names:
  "map fst initializeTools =
     [''reply_to_user'', ''get_memory'', ''save_memory'', ''get_user_info'', ''get_time'',
      ''get_weather'', ''get_server_info'', ''clear_history'']"
  by (simp add: initializeTools_def)

text \<open>
  C6. A tool call whose name is not one of the eight names of the catalog leaves the
  state as it was and fails; when its argument string parses as JSON (what the wire
  contract promises) the failure is \<open>UnknownTool\<close> with that name. (The arguments are
  parsed before the name is looked at, so for a string that does not parse the failure
  is the parser's.)
\<close>

theorem unknown_tool_no_side_effect:
  assumes "tc_name toolCall \<notin> set (map fst initializeTools)"
  shows "(\<forall>parsedArgs. JSON_parse E (tc_arguments toolCall) = Inr parsedArgs \<longrightarrow>
            executeTool E toolCall ctx s = (Inl (UnknownTool (tc_name toolCall)), s))
       \<and> snd (executeTool E toolCall ctx s) = s
       \<and> (\<exists>e. fst (executeTool E toolCall ctx s) = Inl e)"
  using assms
  by (auto simp: executeTool_def initializeTools_def Let_def split: sum.splits)

theorem unknown_tool_witness:
  "''dance'' \<notin> set (map fst initializeTools)
   \<and> JSON_parse demo_env ''{}'' = Inr (JObj [])
   \<and> executeTool demo_env \<lparr>tc_id = ''call_1'', tc_name = ''dance'', tc_arguments = ''{}''\<rparr>
        demo_ctx two_channels
      = (Inl (UnknownTool ''dance''), two_channels)"
proof -
  have h: "tc_name \<lparr>tc_id = ''call_1'', tc_name = ''dance'', tc_arguments = ''{}''\<rparr>
             \<notin> set (map fst initializeTools)"
    by (simp add: initializeTools_def)
  have p: "JSON_parse demo_env ''{}'' = Inr (JObj [])"
    by (simp add: demo_env_def demo_parse_def)
  note t = unknown_tool_no_side_effect[OF h, where E = demo_env and ctx = demo_ctx
      and s = two_channels, THEN conjunct1, rule_format, of "JObj []"]
  have "executeTool demo_env \<lparr>tc_id = ''call_1'', tc_name = ''dance'', tc_arguments = ''{}''\<rparr>
        demo_ctx two_channels = (Inl (UnknownTool ''dance''), two_channels)"
    using t p by simp
  then show ?thesis using h p by simp
qed

subsection \<open>Orchestrator\<close>

lemma model_calls_emit:
  "model_calls (emit e s) = (if is_model_call e then model_calls s @ [e] else model_calls s)"
  by (simp add: model_calls_def emit_def)

lemma model_calls_sleep [simp]: "model_calls (sleep E v s) = model_calls s"
  by (simp add: sleep_def model_calls_emit)

lemma model_calls_saveMessageToHistory [simp]:
  "model_calls (saveMessageToHistory E u c r v s) = model_calls s"
  by (simp add: saveMessageToHistory_def Let_def model_calls_def emit_def split: option.splits)

lemma model_calls_send_messages:
  "model_calls (snd (send_messages E ctx i ms results s)) = model_calls s"
  by (induction ms arbitrary: i results s)
     (simp_all add: Let_def model_calls_emit split: option.splits)

lemma model_calls_deliver: "model_calls (snd (deliver E ctx timeout ms s)) = model_calls s"
proof -
  let ?s1 = "if js_positive E timeout then sleep E timeout s else s"
  have "model_calls (snd (send_messages E ctx 0 ms [] ?s1)) = model_calls ?s1"
    by (rule model_calls_send_messages)
  then show ?thesis
    by (cases "send_messages E ctx 0 ms [] ?s1")
       (auto simp: deliver_def Let_def split: sum.splits)
qed

lemma model_calls_cooldown_gate:
  "cooldown_gate E u n s = Inr s1 \<Longrightarrow> model_calls s1 = model_calls s"
  by (auto simp: cooldown_gate_def Let_def model_calls_def split: if_splits option.splits)

lemma model_calls_replyToUser:
  "model_calls (snd (replyToUser E args ctx s)) = model_calls s"
  by (auto simp: replyToUser_def Let_def model_calls_deliver
      dest: model_calls_cooldown_gate split: sum.splits)

lemma model_calls_getMemory: "model_calls (snd (getMemory E args ctx s)) = model_calls s"
  by (simp add: getMemory_def Let_def model_calls_emit split: option.splits)

lemma model_calls_saveMemory: "model_calls (snd (saveMemory E args ctx s)) = model_calls s"
  by (simp add: saveMemory_def Let_def model_calls_def emit_def split: option.splits)

lemma model_calls_getUserInfo: "model_calls (snd (getUserInfo E args ctx s)) = model_calls s"
  by (simp add: getUserInfo_def Let_def model_calls_emit split: sum.splits)

lemma model_calls_getTime: "model_calls (snd (getTime E args s)) = model_calls s"
  by (simp add: getTime_def Let_def split: sum.splits)

lemma model_calls_getWeather: "model_calls (snd (getWeather E args s)) = model_calls s"
  by (simp add: getWeather_def Let_def model_calls_emit split: sum.splits)

lemma model_calls_getServerInfo: "model_calls (snd (getServerInfo E ctx s)) = model_calls s"
  by (simp add: getServerInfo_def Let_def split: sum.splits)

lemma model_calls_clearHistory: "model_calls (snd (clearHistory E args ctx s)) = model_calls s"
  by (simp add: clearHistory_def Let_def model_calls_def emit_def split: option.splits)

lemma model_calls_executeTool:
  "model_calls (snd (executeTool E toolCall ctx s)) = model_calls s"
  by (simp add: executeTool_def Let_def model_calls_replyToUser model_calls_getMemory
      model_calls_saveMemory model_calls_getUserInfo model_calls_getTime
      model_calls_getWeather model_calls_getServerInfo model_calls_clearHistory
      split: sum.splits)

lemma model_calls_tool_outcomes:
  "model_calls (snd (tool_outcomes E ctx calls s)) = model_calls s"
proof (induction calls arbitrary: s)
  case Nil
  show ?case by simp
next
  case (Cons toolCall rest)
  obtain r s1 where ex: "executeTool E toolCall ctx s = (r, s1)"
    by (cases "executeTool E toolCall ctx s")
  obtain rs s2 where to: "tool_outcomes E ctx rest s1 = (rs, s2)"
    by (cases "tool_outcomes E ctx rest s1")
  have "model_calls s1 = model_calls s"
    using model_calls_executeTool[of E toolCall ctx s] ex by simp
  moreover have "model_calls s2 = model_calls s1"
    using Cons.IH[of s1] to by simp
  ultimately show ?case using ex to by simp
qed

lemma length_tool_outcomes: "length (fst (tool_outcomes E ctx calls s)) = length calls"
proof (induction calls arbitrary: s)
  case Nil
  show ?case by simp
next
  case (Cons toolCall rest)
  obtain r s1 where ex: "executeTool E toolCall ctx s = (r, s1)"
    by (cases "executeTool E toolCall ctx s")
  obtain rs s2 where to: "tool_outcomes E ctx rest s1 = (rs, s2)"
    by (cases "tool_outcomes E ctx rest s1")
  from Cons.IH[of s1] to have "length rs = length rest" by simp
  then show ?case using ex to by simp
qed

text \<open>The loop pushes, for each call in turn, the turns of its outcome.\<close>

lemma run_tool_calls_outcomes:
  "run_tool_calls E ctx text calls messages s =
     (messages @ concat (map (turns_of_outcome E text)
                  (zip calls (fst (tool_outcomes E ctx calls s)))),
      snd (tool_outcomes E ctx calls s))"
proof (induction calls arbitrary: messages s)
  case Nil
  show ?case by simp
next
  case (Cons toolCall rest)
  obtain r s1 where ex: "executeTool E toolCall ctx s = (r, s1)"
    by (cases "executeTool E toolCall ctx s")
  obtain rs s2 where to: "tool_outcomes E ctx rest s1 = (rs, s2)"
    by (cases "tool_outcomes E ctx rest s1")
  show ?case
  proof (cases r)
    case (Inl e)
    then show ?thesis
      using ex to Cons.IH[of "messages @ [\<lparr>msg_role = System,
          msg_content = failed_text (tc_name toolCall) e\<rparr>]" s1]
      by (simp add: turns_of_outcome_def)
  next
    case (Inr result)
    then show ?thesis
      using ex to Cons.IH[of "messages @ [\<lparr>msg_role = Assistant, msg_content = text\<rparr>,
          \<lparr>msg_role = System, msg_content = executed_text E (tc_name toolCall) result\<rparr>]" s1]
      by (simp add: turns_of_outcome_def)
  qed
qed

text \<open>
  C4. When the first model call answers with a message that carries tool calls (and
  the orchestrator was given the tool context), every call is executed, in order, each
  from the state the previous one left; the conversation grows by the turns of each
  outcome in that order (an assistant turn with the response's text, possibly empty,
  and a system turn \<^verbatim>\<open>Tool <name> executed with result: <json>\<close> for a success; one
  system turn \<^verbatim>\<open>Tool <name> failed: <error>\<close> for a failure, after which the next
  call runs); then exactly one more model call is made, on that conversation and
  without the catalog, and its content is the result (its failure, if it fails). No
  other model call happens in the cycle.
\<close>

theorem tool_cycle_single_finalization:
  fixes E :: env and ctx :: ToolExecutionContext and s :: state
  assumes first: "chat_completions_create E s messages True = Inr response"
    and msg: "first_message response = Some message"
    and calls: "tool_calls message = Some calls"
  defines "text \<equiv> or_empty (rm_content message)"
  defines "cycle \<equiv> tool_outcomes E ctx calls (emit (ModelCall messages True) s)"
  defines "conversation \<equiv>
             messages @ concat (map (turns_of_outcome E text) (zip calls (fst cycle)))"
  defines "out \<equiv> generateResponse E messages (Some ctx) s"
  shows "length (fst cycle) = length calls
       \<and> trace (snd out) = trace (snd cycle) @ [ModelCall conversation False]
       \<and> model_calls (snd out)
           = model_calls s @ [ModelCall messages True, ModelCall conversation False]
       \<and> fst out =
           (case chat_completions_create E (snd cycle) conversation False of
              Inl e \<Rightarrow> Inl e
            | Inr finalResponse \<Rightarrow>
                Inr (or_empty (case first_message finalResponse of
                                 None \<Rightarrow> None
                               | Some m \<Rightarrow> rm_content m)))"
proof -
  let ?s1 = "emit (ModelCall messages True) s"
  have loop: "run_tool_calls E ctx text calls messages ?s1 = (conversation, snd cycle)"
    unfolding conversation_def cycle_def by (rule run_tool_calls_outcomes)
  have out: "out =
      (case chat_completions_create E (snd cycle) conversation False of
         Inl e \<Rightarrow> (Inl e, emit (ModelCall conversation False) (snd cycle))
       | Inr finalResponse \<Rightarrow>
           (Inr (or_empty (case first_message finalResponse of
                             None \<Rightarrow> None
                           | Some m \<Rightarrow> rm_content m)),
            emit (ModelCall conversation False) (snd cycle)))"
    using first msg calls loop
    by (simp add: out_def generateResponse_def Let_def text_def)
  have st: "snd out = emit (ModelCall conversation False) (snd cycle)"
    unfolding out by (simp split: sum.splits)
  have 1: "length (fst cycle) = length calls"
    unfolding cycle_def by (rule length_tool_outcomes)
  have 2: "trace (snd out) = trace (snd cycle) @ [ModelCall conversation False]"
    unfolding st by (simp add: emit_def)
  have "model_calls (snd cycle) = model_calls ?s1"
    unfolding cycle_def by (rule model_calls_tool_outcomes)
  then have 3: "model_calls (snd out)
           = model_calls s @ [ModelCall messages True, ModelCall conversation False]"
    unfolding st by (simp add: model_calls_emit)
  have 4: "fst out =
           (case chat_completions_create E (snd cycle) conversation False of
              Inl e \<Rightarrow> Inl e
            | Inr finalResponse \<Rightarrow>
                Inr (or_empty (case first_message finalResponse of
                                 None \<Rightarrow> None
                               | Some m \<Rightarrow> rm_content m)))"
    unfolding out by (simp split: sum.splits)
  from 1 2 3 4 show ?thesis by simp
qed

text \<open>
  Two tool calls, the first to a tool that does not exist, the second a confirmed
  \<^verbatim>\<open>clear_history\<close> on the table of ten and two rows: the failure is told to the
  model, the second call runs, and one finalisation call is made.
\<close>

theorem tool_cycle_witness:
  \<open>chat_completions_create two_tools_env two_channels hi True
     = Inr [Some \<lparr>rm_content = None, tool_calls = Some [dance_call, clear_call]\<rparr>]
   \<and> fst (generateResponse two_tools_env hi (Some demo_ctx) two_channels) = Inr ''done''
   \<and> model_calls (snd (generateResponse two_tools_env hi (Some demo_ctx) two_channels))
     = [ModelCall hi True,
        ModelCall
          (hi @
           [\<lparr>msg_role = System,
             msg_content = ''Tool dance failed: Error: Unknown tool: dance''\<rparr>,
            \<lparr>msg_role = Assistant, msg_content = ''''\<rparr>,
            \<lparr>msg_role = System,
             msg_content = ''Tool clear_history executed with result: {"success":true,"messages_deleted":10,"user_id":"u1","channel_id":"c1"}''\<rparr>])
          False]\<close>
proof -
  let ?response = "[Some \<lparr>rm_content = None, tool_calls = Some [dance_call, clear_call]\<rparr>]"
  let ?message = "\<lparr>rm_content = None, tool_calls = Some [dance_call, clear_call]\<rparr>"
  have h1: "chat_completions_create two_tools_env two_channels hi True = Inr ?response"
    by (simp add: two_tools_env_def)
  have h2: "first_message ?response = Some ?message"
    by (simp add: first_message_def)
  have h3: "tool_calls ?message = Some [dance_call, clear_call]"
    by simp
  note t = tool_cycle_single_finalization[OF h1 h2 h3, where ctx = demo_ctx]
  have pre: "model_calls two_channels = []"
    by (simp add: model_calls_def two_channels_def ten_turns_def store_eval)
  have cnt: "length (filter (in_pair ''u1'' ''c1'') (message_history two_channels)) = 10"
    by (simp add: two_channels_def ten_turns_def store_eval in_pair_def)
  have outcomes: \<open>fst (tool_outcomes two_tools_env demo_ctx [dance_call, clear_call]
                    (emit (ModelCall hi True) two_channels))
      = [Inl (UnknownTool ''dance''),
         Inr (JObj [(''success'', JBool True), (''messages_deleted'', JNum 10),
                    (''user_id'', JStr ''u1''), (''channel_id'', JStr ''c1'')])]\<close>
    using cnt
    by (simp add: executeTool_def clearHistory_def nullish_def Let_def
        dance_call_def clear_call_def two_tools_env_def demo_env_def demo_parse_def
        demo_ctx_def emit_def)
  have final: "chat_completions_create two_tools_env st ms False
      = Inr [Some \<lparr>rm_content = Some ''done'', tool_calls = None\<rparr>]" for st ms
    by (simp add: two_tools_env_def)
  have js: "JSON_stringify two_tools_env = stringify"
    by (simp add: two_tools_env_def demo_env_def)
  have r: "fst (generateResponse two_tools_env hi (Some demo_ctx) two_channels) = Inr ''done''"
    using t[THEN conjunct2, THEN conjunct2, THEN conjunct2]
    by (simp add: final first_message_def or_empty_def)
  have m: \<open>model_calls (snd (generateResponse two_tools_env hi (Some demo_ctx) two_channels))
     = [ModelCall hi True,
        ModelCall
          (hi @
           [\<lparr>msg_role = System,
             msg_content = ''Tool dance failed: Error: Unknown tool: dance''\<rparr>,
            \<lparr>msg_role = Assistant, msg_content = ''''\<rparr>,
            \<lparr>msg_role = System,
             msg_content = ''Tool clear_history executed with result: {"success":true,"messages_deleted":10,"user_id":"u1","channel_id":"c1"}''\<rparr>])
          False]\<close>
    using t[THEN conjunct2, THEN conjunct2, THEN conjunct1] unfolding outcomes pre
    by (simp add: turns_of_outcome_def failed_text_def executed_text_def
        or_empty_def dance_call_def clear_call_def js show_int_def digit_char_def)
  show ?thesis
    by (intro conjI) (rule h1 r m)+
qed

text \<open>
  A response whose \<^verbatim>\<open>tool_calls\<close> is absent (or when no tool context was given): its
  content is returned, and the one model call made is the only one.
\<close>

lemma absent_tool_calls_single_call:
  assumes "chat_completions_create E s messages True = Inr response"
    and "first_message response = Some message"
    and "tool_calls message = None \<or> context = None"
  shows "generateResponse E messages context s
           = (Inr (or_empty (rm_content message)), emit (ModelCall messages True) s)"
  using assms
  by (auto simp: generateResponse_def Let_def split: option.splits)

text \<open>
  C5. Evaluation at a response that carries no tool calls in the form of an empty
  list \<^verbatim>\<open>tool_calls: []\<close>: the guard \<^verbatim>\<open>choice.message.tool_calls && context\<close> holds for
  it, the loop runs zero times, and a second model call is made; its content
  \<open>''again''\<close> is returned in place of the response's own \<open>''hello''\<close>.
\<close>

theorem empty_tool_calls_second_model_call:
  "generateResponse empty_calls_env hi (Some demo_ctx) empty_state
     = (Inr ''again'',
        empty_state\<lparr>trace := [ModelCall hi True, ModelCall hi False]\<rparr>)"
  by (simp add: generateResponse_def first_message_def or_empty_def empty_calls_env_def
      demo_env_def empty_state_def emit_def Let_def)

subsection \<open>Reply normalisation\<close>

text \<open>A bare string is one message with no delay.\<close>

lemma normalize_bare_string:
  "normalize_messages (JStr t) = Inr [\<lparr>nm_content = JStr t, nm_cooldown = JNum 0\<rparr>]"
  by (simp add: normalize_messages_def)

lemma normalize_from_strings:
  "normalize_from i (map JStr ts) =
     Inr (map (\<lambda>(k, t). \<lparr>nm_content = JStr t, nm_cooldown = default_delay k\<rparr>)
            (enumerate i ts))"
  by (induction ts arbitrary: i) (simp_all add: normalize_entry_def default_delay_def)

text \<open>A list of strings: delay 0 for the first entry, 1000 for every later one.\<close>

lemma normalize_strings:
  "normalize_messages (JArr (map JStr ts)) =
     Inr (map (\<lambda>(k, t). \<lparr>nm_content = JStr t, nm_cooldown = default_delay k\<rparr>)
            (enumerate 0 ts))"
  by (simp add: normalize_messages_def normalize_from_strings)

text \<open>
  An object entry: its delay when that is truthy (set and not zero), the default of
  its position otherwise.
\<close>

lemma normalize_object_entry:
  "normalize_entry i (JObj fs) =
     Inr \<lparr>nm_content = js_prop (JObj fs) ''content'',
          nm_cooldown = (case map_of fs ''cooldown'' of
                           None \<Rightarrow> default_delay i
                         | Some d \<Rightarrow> if truthy d then d else default_delay i)\<rparr>"
  by (simp add: normalize_entry_def default_delay_def split: option.splits)

text \<open>
  Three strings, nobody rate limited, a platform that delivers and a store that
  accepts: delays 0, 1000, 1000, and three assistant turns persisted in send order.
\<close>

lemma three_strings_sent_and_persisted:
  "normalize_messages (js_prop three_strings ''messages'')
     = Inr [\<lparr>nm_content = JStr ''a'', nm_cooldown = JNum 0\<rparr>,
            \<lparr>nm_content = JStr ''b'', nm_cooldown = JNum 1000\<rparr>,
            \<lparr>nm_content = JStr ''c'', nm_cooldown = JNum 1000\<rparr>]"
  "trace (snd (replyToUser demo_env three_strings demo_ctx empty_state))
     = [Reply (JStr ''a''),
        Query InsertHistory [JStr ''u1'', JStr ''c1'', JStr ''assistant'', JStr ''a''],
        Sleep 1000,
        Reply (JStr ''b''),
        Query InsertHistory [JStr ''u1'', JStr ''c1'', JStr ''assistant'', JStr ''b''],
        Sleep 1000,
        Reply (JStr ''c''),
        Query InsertHistory [JStr ''u1'', JStr ''c1'', JStr ''assistant'', JStr ''c'']]"
  "map (\<lambda>r. (role r, content r))
     (message_history (snd (replyToUser demo_env three_strings demo_ctx empty_state)))
     = [(Assistant, ''a''), (Assistant, ''b''), (Assistant, ''c'')]"
  by (simp_all add: reply_eval three_strings_def store_eval demo_ctx_def)

text \<open>
  C3. Evaluation at a list of two objects of which the second sets its delay to 0:
  \<^verbatim>\<open>msg.cooldown || (index > 0 ? 1000 : 0)\<close> takes the 0 for an omitted delay, and the
  entry is normalised to 1000 ms, not to the 0 ms it set.
\<close>

theorem explicit_zero_delay_replaced:
  "normalize_messages
     (JArr [JObj [(''content'', JStr ''a'')],
            JObj [(''content'', JStr ''b''), (''cooldown'', JNum 0)]])
   = Inr [\<lparr>nm_content = JStr ''a'', nm_cooldown = JNum 0\<rparr>,
          \<lparr>nm_content = JStr ''b'', nm_cooldown = JNum 1000\<rparr>]"
  by (simp add: normalize_messages_def normalize_entry_def)

subsection \<open>Required fields\<close>

text \<open>
  C1, as the claim states it, fails: \<^verbatim>\<open>get_weather\<close> requires \<open>city\<close>, and called
  with the payload \<^verbatim>\<open>{}\<close> it does not fail with \<open>ValidationError\<close> before any side
  effect but sends its HTTP request, for the city \<^verbatim>\<open>undefined\<close>.
\<close>

theorem get_weather_city_unchecked:
  "map_of initializeTools ''get_weather'' = Some [''city'']
   \<and> JSON_parse demo_env (tc_arguments weather_call) = Inr (JObj [])
   \<and> js_prop (JObj []) ''city'' = JUndef
   \<and> executeTool demo_env weather_call demo_ctx empty_state
     = (Inl (UpstreamFailure ''wttr.in error: 404''),
        empty_state\<lparr>trace := [HttpGet ''https://wttr.in/undefined?format=j1'']\<rparr>)"
  by (simp add: initializeTools_def weather_call_def executeTool_def getWeather_def
      demo_env_def demo_parse_def empty_state_def emit_def nullish_def show_int_def
      digit_char_def)

text \<open>
  C1, amended. Of the handlers with required fields, \<^verbatim>\<open>replyToUser\<close> alone rejects a
  payload that lacks its field before any side effect: without \<open>messages\<close> it fails with
  \<open>ValidationError\<close> and the state is unchanged; \<^verbatim>\<open>clearHistory\<close> without \<open>confirm\<close>
  fails likewise, with \<open>ConfirmationRequired\<close>. The other handlers do not look whether
  their fields are there: \<^verbatim>\<open>saveMemory\<close> and \<^verbatim>\<open>getMemory\<close> send their statement to
  the store and \<^verbatim>\<open>getWeather\<close> sends its HTTP request whatever the payload holds, an
  absent field going out as \<^verbatim>\<open>undefined\<close>; \<^verbatim>\<open>getTime\<close> has no side effect in any
  case and fails only if the time formatter refuses what it is given.
\<close>

theorem required_field_checks:
  assumes "\<not> nullish args"
  shows "(js_prop args ''messages'' = JUndef
            \<longrightarrow> replyToUser E args ctx s = (Inl ValidationError, s))
       \<and> (js_prop args ''confirm'' = JUndef
            \<longrightarrow> clearHistory E args ctx s = (Inl ConfirmationRequired, s))
       \<and> trace (snd (saveMemory E args ctx s))
           = trace s @ [Query InsertMemory
                          [js_default (JStr (ctx_user_id ctx)) (js_prop args ''user_id''),
                           js_prop args ''keywords'', js_prop args ''content'']]
       \<and> trace (snd (getMemory E args ctx s))
           = trace s @ [Query SelectMemories
                          [js_default (JStr (ctx_user_id ctx)) (js_prop args ''user_id''),
                           js_prop args ''keywords'']]
       \<and> trace (snd (getWeather E args s))
           = trace s @ [HttpGet (''https://wttr.in/''
                          @ encodeURIComponent E (js_to_string (js_prop args ''city''))
                          @ ''?format=j1'')]
       \<and> snd (getTime E args s) = s
       \<and> (\<forall>e. fst (getTime E args s) = Inl e
            \<longrightarrow> format_time E (js_prop args ''timezone'') (Date_now E s 0) = Inl e)"
proof (intro conjI impI allI)
  assume "js_prop args ''messages'' = JUndef"
  then show "replyToUser E args ctx s = (Inl ValidationError, s)"
    using assms by (simp add: replyToUser_def normalize_messages_def Let_def)
next
  assume "js_prop args ''confirm'' = JUndef"
  then show "clearHistory E args ctx s = (Inl ConfirmationRequired, s)"
    using assms by (simp add: clearHistory_def Let_def)
next
  show "trace (snd (saveMemory E args ctx s))
           = trace s @ [Query InsertMemory
                          [js_default (JStr (ctx_user_id ctx)) (js_prop args ''user_id''),
                           js_prop args ''keywords'', js_prop args ''content'']]"
    using assms by (simp add: saveMemory_def Let_def emit_def split: option.splits)
next
  show "trace (snd (getMemory E args ctx s))
           = trace s @ [Query SelectMemories
                          [js_default (JStr (ctx_user_id ctx)) (js_prop args ''user_id''),
                           js_prop args ''keywords'']]"
    using assms by (simp add: getMemory_def Let_def emit_def split: option.splits)
next
  show "trace (snd (getWeather E args s))
           = trace s @ [HttpGet (''https://wttr.in/''
                          @ encodeURIComponent E (js_to_string (js_prop args ''city''))
                          @ ''?format=j1'')]"
    using assms by (simp add: getWeather_def Let_def emit_def split: sum.splits)
next
  show "snd (getTime E args s) = s"
    by (simp add: getTime_def Let_def split: sum.splits)
next
  fix e assume "fst (getTime E args s) = Inl e"
  then show "format_time E (js_prop args ''timezone'') (Date_now E s 0) = Inl e"
    using assms by (simp add: getTime_def Let_def split: sum.splits)
qed

text \<open>The empty payload \<^verbatim>\<open>{}\<close>, given to each of the handlers.\<close>

theorem required_field_witness:
  "\<not> nullish (JObj [])
   \<and> replyToUser demo_env (JObj []) demo_ctx empty_state = (Inl ValidationError, empty_state)
   \<and> clearHistory demo_env (JObj []) demo_ctx empty_state
       = (Inl ConfirmationRequired, empty_state)
   \<and> trace (snd (saveMemory demo_env (JObj []) demo_ctx empty_state))
       = [Query InsertMemory [JStr ''u1'', JUndef, JUndef]]
   \<and> trace (snd (getMemory demo_env (JObj []) demo_ctx empty_state))
       = [Query SelectMemories [JStr ''u1'', JUndef]]
   \<and> trace (snd (getWeather demo_env (JObj []) empty_state))
       = [HttpGet ''https://wttr.in/undefined?format=j1'']
   \<and> snd (getTime demo_env (JObj []) empty_state) = empty_state"
proof -
  have h: "\<not> nullish (JObj [])"
    by (simp add: nullish_def)
  note t = required_field_checks[OF h, where E = demo_env and ctx = demo_ctx
      and s = empty_state]
  have 1: "replyToUser demo_env (JObj []) demo_ctx empty_state
             = (Inl ValidationError, empty_state)"
    using t[THEN conjunct1] by simp
  have 2: "clearHistory demo_env (JObj []) demo_ctx empty_state
             = (Inl ConfirmationRequired, empty_state)"
    using t[THEN conjunct2, THEN conjunct1] by simp
  have 3: "trace (snd (saveMemory demo_env (JObj []) demo_ctx empty_state))
       = [Query InsertMemory [JStr ''u1'', JUndef, JUndef]]"
    using t[THEN conjunct2, THEN conjunct2, THEN conjunct1]
    by (simp add: js_default_def demo_ctx_def empty_state_def)
  have 4: "trace (snd (getMemory demo_env (JObj []) demo_ctx empty_state))
       = [Query SelectMemories [JStr ''u1'', JUndef]]"
    using t[THEN conjunct2, THEN conjunct2, THEN conjunct2, THEN conjunct1]
    by (simp add: js_default_def demo_ctx_def empty_state_def)
  have 5: "trace (snd (getWeather demo_env (JObj []) empty_state))
       = [HttpGet ''https://wttr.in/undefined?format=j1'']"
    using t[THEN conjunct2, THEN conjunct2, THEN conjunct2, THEN conjunct2, THEN conjunct1]
    by (simp add: demo_env_def empty_state_def)
  have 6: "snd (getTime demo_env (JObj []) empty_state) = empty_state"
    using t[THEN conjunct2, THEN conjunct2, THEN conjunct2, THEN conjunct2,
        THEN conjunct2, THEN conjunct1] .
  show ?thesis
    by (intro conjI) (rule h 1 2 3 4 5 6)+
qed

subsection \<open>The primary key is kept\<close>

lemma history_keys_ok_empty: "history_keys_ok empty_state"
  by (simp add: history_keys_ok_def empty_state_def)

lemma history_keys_ok_emit [simp]: "history_keys_ok (emit e s) = history_keys_ok s"
  by (simp add: history_keys_ok_def emit_def)

lemma history_keys_ok_sleep [simp]: "history_keys_ok (sleep E v s) = history_keys_ok s"
  by (simp add: sleep_def)

lemma history_keys_ok_filter:
  "history_keys_ok s \<Longrightarrow>
     history_keys_ok (s\<lparr>message_history := filter P (message_history s)\<rparr>)"
  by (auto simp: history_keys_ok_def distinct_map_filter list_all_iff)

lemma history_keys_ok_saveMessageToHistory:
  assumes "history_keys_ok s"
  shows "history_keys_ok (saveMessageToHistory E u c r v s)"
proof -
  have "row_id x \<noteq> Suc (history_seq s)" if "x \<in> set (message_history s)" for x
    using assms that by (fastforce simp: history_keys_ok_def list_all_iff)
  then show ?thesis
    using assms
    by (auto simp: saveMessageToHistory_def Let_def emit_def history_keys_ok_def
        list_all_iff split: option.splits)
qed

lemma history_keys_ok_cleanOldHistory:
  assumes "history_keys_ok s"
  shows "history_keys_ok (cleanOldHistory E u c k s)"
proof -
  have "history_keys_ok (s\<lparr>message_history := filter P (message_history s)\<rparr>)" for P
    using assms by (rule history_keys_ok_filter)
  then have "history_keys_ok
      ((emit e s)\<lparr>message_history := filter P (message_history (emit e s))\<rparr>)" for P e
    by (simp add: history_keys_ok_def emit_def)
  then show ?thesis
    using assms by (simp add: cleanOldHistory_def Let_def)
qed

lemma history_keys_ok_clearHistory:
  assumes "history_keys_ok s"
  shows "history_keys_ok (snd (clearHistory E args ctx s))"
proof -
  have "history_keys_ok (s\<lparr>message_history := filter P (message_history s)\<rparr>)" for P
    using assms by (rule history_keys_ok_filter)
  then have "history_keys_ok
      ((emit e s)\<lparr>message_history := filter P (message_history (emit e s))\<rparr>)" for P e
    by (simp add: history_keys_ok_def emit_def)
  then show ?thesis
    using assms by (simp add: clearHistory_def Let_def split: option.splits)
qed

lemma history_keys_ok_send_messages:
  "history_keys_ok s \<Longrightarrow> history_keys_ok (snd (send_messages E ctx i ms results s))"
  by (induction ms arbitrary: i results s)
     (simp_all add: Let_def history_keys_ok_saveMessageToHistory split: option.splits)

lemma history_keys_ok_deliver:
  assumes "history_keys_ok s"
  shows "history_keys_ok (snd (deliver E ctx timeout ms s))"
proof -
  let ?s1 = "if js_positive E timeout then sleep E timeout s else s"
  have "history_keys_ok ?s1" using assms by simp
  then have "history_keys_ok (snd (send_messages E ctx 0 ms [] ?s1))"
    by (rule history_keys_ok_send_messages)
  then show ?thesis
    by (cases "send_messages E ctx 0 ms [] ?s1")
       (auto simp: deliver_def Let_def split: sum.splits)
qed

lemma history_keys_ok_cooldown_gate:
  "cooldown_gate E u n s = Inr s1 \<Longrightarrow> history_keys_ok s \<Longrightarrow> history_keys_ok s1"
  by (auto simp: cooldown_gate_def Let_def history_keys_ok_def
      split: if_splits option.splits)

lemma history_keys_ok_replyToUser:
  "history_keys_ok s \<Longrightarrow> history_keys_ok (snd (replyToUser E args ctx s))"
  by (auto simp: replyToUser_def Let_def history_keys_ok_deliver
      dest: history_keys_ok_cooldown_gate split: sum.splits)

lemma history_untouched:
  "message_history (snd (getMemory E args ctx s)) = message_history s"
  "history_seq (snd (getMemory E args ctx s)) = history_seq s"
  "message_history (snd (saveMemory E args ctx s)) = message_history s"
  "history_seq (snd (saveMemory E args ctx s)) = history_seq s"
  "message_history (snd (getUserInfo E args ctx s)) = message_history s"
  "history_seq (snd (getUserInfo E args ctx s)) = history_seq s"
  "snd (getTime E args s) = s"
  "message_history (snd (getWeather E args s)) = message_history s"
  "history_seq (snd (getWeather E args s)) = history_seq s"
  "snd (getServerInfo E ctx s) = s"
  by (simp_all add: getMemory_def saveMemory_def getUserInfo_def getTime_def getWeather_def
      getServerInfo_def Let_def emit_def split: option.splits sum.splits)

lemma history_keys_ok_cong:
  "message_history s1 = message_history s \<Longrightarrow> history_seq s1 = history_seq s
     \<Longrightarrow> history_keys_ok s1 = history_keys_ok s"
  by (simp add: history_keys_ok_def)

lemma history_keys_ok_readers:
  "history_keys_ok (snd (getMemory E args ctx s)) = history_keys_ok s"
  "history_keys_ok (snd (saveMemory E args ctx s)) = history_keys_ok s"
  "history_keys_ok (snd (getUserInfo E args ctx s)) = history_keys_ok s"
  "history_keys_ok (snd (getTime E args s)) = history_keys_ok s"
  "history_keys_ok (snd (getWeather E args s)) = history_keys_ok s"
  "history_keys_ok (snd (getServerInfo E ctx s)) = history_keys_ok s"
  by (rule history_keys_ok_cong; simp add: history_untouched)+

text \<open>Whatever tool is called, with whatever arguments, row ids stay unique.\<close>

lemma history_keys_ok_executeTool:
  assumes "history_keys_ok s"
  shows "history_keys_ok (snd (executeTool E toolCall ctx s))"
  using assms
  by (simp add: executeTool_def Let_def history_keys_ok_replyToUser
      history_keys_ok_clearHistory history_keys_ok_readers split: sum.splits)

end
